theory Spec2Isabelle
  imports Main "HOL-Library.Multiset" "HOL-Library.Word" "HOL-Library.List_Lexorder"
    "HOL-Library.Char_ord"
begin

section \<open>Data model (types/index.ts)\<close>

text \<open>
  The interfaces of \<^verbatim>\<open>types/index.ts\<close> as records. Identifiers, names and messages are
  strings; a \<^verbatim>\<open>Date\<close> is its millisecond time stamp. An optional property
  (\<^verbatim>\<open>address?\<close>) is an \<open>option\<close>. Field names follow the source, except where two
  interfaces share a name or the name is a HOL constant: \<^verbatim>\<open>Contact.id\<close> is \<open>cid\<close>,
  \<^verbatim>\<open>Name.first/last/middle\<close> are \<open>first_name\<close>, \<open>last_name\<close>, \<open>middle_name\<close>,
  \<^verbatim>\<open>Contact.notes\<close> is \<open>contact_notes\<close>,
  the fields of \<^verbatim>\<open>PhoneNumber\<close>, \<^verbatim>\<open>Email\<close> and \<^verbatim>\<open>ContactGroup\<close> carry a prefix,
  and the store's group map is \<open>group_map\<close> (the contact's membership list keeps the
  name \<open>groups\<close>).
\<close>

record Name =
  first_name :: string
  last_name :: string
  middle_name :: "string option"

datatype phone_type = Mobile | Home | Work | Other

record PhoneNumber =
  phone_id :: string
  number :: string
  phone_kind :: phone_type
  phone_isPrimary :: bool

datatype email_type = Personal | WorkMail | OtherMail

record Email =
  email_id :: string
  address_text :: string
  email_kind :: email_type
  email_isPrimary :: bool

record Address =
  street :: string
  city :: string
  region :: string
  postalCode :: string
  country :: string

record Contact =
  cid :: string
  name :: Name
  phones :: "PhoneNumber list"
  emails :: "Email list"
  address :: "Address option"
  company :: "string option"
  contact_notes :: "string option"
  avatar :: "string option"
  groups :: "string list"
  isFavorite :: bool
  createdAt :: int
  updatedAt :: int

record ContactGroup =
  gid :: string
  group_name :: string
  color :: string
  icon :: "string option"
  group_createdAt :: int
  group_updatedAt :: int

text \<open>
  \<^verbatim>\<open>Partial<Contact>\<close>: every property may be absent (\<open>None\<close>). A property that is
  present with the value \<^verbatim>\<open>undefined\<close> is outside the model.
\<close>

record ContactUpdates =
  u_cid :: "string option"
  u_name :: "Name option"
  u_phones :: "PhoneNumber list option"
  u_emails :: "Email list option"
  u_address :: "Address option"
  u_company :: "string option"
  u_notes :: "string option"
  u_avatar :: "string option"
  u_groups :: "string list option"
  u_isFavorite :: "bool option"
  u_createdAt :: "int option"
  u_updatedAt :: "int option"

record GroupUpdates =
  u_gid :: "string option"
  u_group_name :: "string option"
  u_color :: "string option"
  u_icon :: "string option"
  u_group_createdAt :: "int option"
  u_group_updatedAt :: "int option"

text \<open>
  \<^verbatim>\<open>Object.assign(target, updates)\<close> copies every property that \<^verbatim>\<open>updates\<close> has
  onto the target, the identifier included, and leaves the others.
\<close>

definition pick :: "'a option \<Rightarrow> 'a \<Rightarrow> 'a" where
  "pick new old = (case new of None \<Rightarrow> old | Some v \<Rightarrow> v)"

definition pick_opt :: "'a option \<Rightarrow> 'a option \<Rightarrow> 'a option" where
  "pick_opt new old = (case new of None \<Rightarrow> old | Some v \<Rightarrow> Some v)"

definition assign :: "Contact \<Rightarrow> ContactUpdates \<Rightarrow> Contact" where
  "assign c u =
     \<lparr> cid = pick (u_cid u) (cid c),
       name = pick (u_name u) (name c),
       phones = pick (u_phones u) (phones c),
       emails = pick (u_emails u) (emails c),
       address = pick_opt (u_address u) (address c),
       company = pick_opt (u_company u) (company c),
       contact_notes = pick_opt (u_notes u) (contact_notes c),
       avatar = pick_opt (u_avatar u) (avatar c),
       groups = pick (u_groups u) (groups c),
       isFavorite = pick (u_isFavorite u) (isFavorite c),
       createdAt = pick (u_createdAt u) (createdAt c),
       updatedAt = pick (u_updatedAt u) (updatedAt c) \<rparr>"

definition assign_group :: "ContactGroup \<Rightarrow> GroupUpdates \<Rightarrow> ContactGroup" where
  "assign_group g u =
     \<lparr> gid = pick (u_gid u) (gid g),
       group_name = pick (u_group_name u) (group_name g),
       color = pick (u_color u) (color g),
       icon = pick_opt (u_icon u) (icon g),
       group_createdAt = pick (u_group_createdAt u) (group_createdAt g),
       group_updatedAt = pick (u_group_updatedAt u) (group_updatedAt g) \<rparr>"

section \<open>The contact store (zustand-phonebook/src/store/contactStore.ts)\<close>

subsection \<open>Looking a name up in an object\<close>

text \<open>
  \<^verbatim>\<open>contacts\<close> and \<^verbatim>\<open>groups\<close> are plain objects (\<^verbatim>\<open>Record<string, _>\<close>). The value of
  \<^verbatim>\<open>state.contacts[id]\<close> is the object's own property of that name if it has one;
  otherwise it is what the object inherits from \<^verbatim>\<open>Object.prototype\<close>: one of eleven
  functions, or, for the name \<^verbatim>\<open>__proto__\<close>, \<^verbatim>\<open>Object.prototype\<close> itself; otherwise it
  is \<^verbatim>\<open>undefined\<close>. The inherited values are objects, so the guard
  \<^verbatim>\<open>if (state.contacts[id])\<close> lets them pass. (The immer draft and the valtio proxy
  hand an inherited value out as it is.)
\<close>

definition prototype_functions :: "string list" where
  "prototype_functions =
     [''constructor'', ''__defineGetter__'', ''__defineSetter__'', ''hasOwnProperty'',
      ''__lookupGetter__'', ''__lookupSetter__'', ''isPrototypeOf'', ''propertyIsEnumerable'',
      ''toString'', ''valueOf'', ''toLocaleString'']"

datatype 'a looked_up = Own 'a | InheritedFunction | ThePrototype | NotFound

definition look_up :: "(string \<rightharpoonup> 'a) \<Rightarrow> string \<Rightarrow> 'a looked_up" where
  "look_up m i =
     (case m i of
        Some v \<Rightarrow> Own v
      | None \<Rightarrow>
          if i \<in> set prototype_functions then InheritedFunction
          else if i = ''__proto__'' then ThePrototype
          else NotFound)"

subsection \<open>The state\<close>

text \<open>
  \<^verbatim>\<open>ContactState\<close>: the two objects are finite maps from an own key to the stored
  object, \<^verbatim>\<open>favorites\<close> is the array of identifiers in push order. Two more fields
  stand for the part of the JavaScript heap outside the store that the actions read
  and write:
  \<^item> \<open>function_flags\<close>: the \<^verbatim>\<open>isFavorite\<close> property that an action has put on one of
    the inherited functions, by the function's name (\<^verbatim>\<open>toggleFavorite('toString')\<close>
    sets \<^verbatim>\<open>Object.prototype.toString.isFavorite\<close>);
  \<^item> \<open>beyond\<close>: the heap has left the part that the model follows. An action of
    this store that meets the identifier \<^verbatim>\<open>__proto__\<close>, as the argument or as the
    \<^verbatim>\<open>id\<close> of what it stores, works on a prototype object (it writes to
    \<^verbatim>\<open>Object.prototype\<close>, or the assignment \<^verbatim>\<open>object['__proto__'] = value\<close> reaches the
    setter of the prototype instead of making a property); the model does not follow
    it there: the action sets \<open>beyond\<close> and the model says nothing else about the
    call. \<open>beyond\<close> is also set when \<^verbatim>\<open>Object.assign\<close> on an inherited function stops
    half way, and, in the jotai actions, when an object that is not a contact is
    stored in the contact map. The definitions say what an action does in a state
    where \<open>beyond\<close> is off; they start in a realm whose \<^verbatim>\<open>Object.prototype\<close> has its
    standard properties only.
  Every action is one \<^verbatim>\<open>set((state) => ...)\<close> call, so it is a function from the state
  before to the state after. The source has no \<^verbatim>\<open>throw\<close>; the one exception an action
  can raise comes from \<^verbatim>\<open>Object.assign\<close>, and the functions \<open>updateContact_throws\<close>
  and \<open>updateGroup_throws\<close> say when. The store is then as before the call (immer
  drops the draft; valtio has not written to the store yet).
\<close>

record ContactState =
  contacts :: "string \<rightharpoonup> Contact"
  group_map :: "string \<rightharpoonup> ContactGroup"
  favorites :: "string list"
  loading :: bool
  error :: "string option"
  function_flags :: "string \<rightharpoonup> bool"
  beyond :: bool

definition initial_state :: ContactState where
  "initial_state =
     \<lparr> contacts = Map.empty, group_map = Map.empty, favorites = [],
       loading = False, error = None, function_flags = Map.empty, beyond = False \<rparr>"

text \<open>The body of the \<^verbatim>\<open>forEach\<close> in \<^verbatim>\<open>setContacts\<close>, and the action.\<close>

definition setContacts_each :: "ContactState \<Rightarrow> Contact \<Rightarrow> ContactState" where
  "setContacts_each s c =
     (if cid c = ''__proto__'' then s\<lparr> beyond := True \<rparr>
      else s\<lparr> contacts := (contacts s)(cid c \<mapsto> c),
              favorites := (if isFavorite c then favorites s @ [cid c] else favorites s) \<rparr>)"

definition setContacts :: "Contact list \<Rightarrow> ContactState \<Rightarrow> ContactState" where
  "setContacts cs s = foldl setContacts_each (s\<lparr> contacts := Map.empty, favorites := [] \<rparr>) cs"

definition addContact :: "Contact \<Rightarrow> ContactState \<Rightarrow> ContactState" where
  "addContact c s =
     (if cid c = ''__proto__'' then s\<lparr> beyond := True \<rparr>
      else s\<lparr> contacts := (contacts s)(cid c \<mapsto> c),
              favorites := (if isFavorite c \<and> cid c \<notin> set (favorites s)
                            then favorites s @ [cid c] else favorites s) \<rparr>)"

text \<open>
  \<^verbatim>\<open>updateContact\<close>. For an own key, \<^verbatim>\<open>Object.assign\<close> merges the updates into the
  stored contact. For the name of an inherited function, \<^verbatim>\<open>Object.assign\<close> writes the
  updates onto that function: if they have a \<^verbatim>\<open>name\<close>, it throws a \<^verbatim>\<open>TypeError\<close> at
  that property (the \<^verbatim>\<open>name\<close> of a function is read-only), and whether an
  \<^verbatim>\<open>isFavorite\<close> among them was written before depends on the order of the properties;
  if they have none, the function's \<^verbatim>\<open>isFavorite\<close> is the one of the updates, or stays,
  and the favourites list is reconciled with it, under the inherited name.
\<close>

definition reconcile :: "string \<Rightarrow> bool \<Rightarrow> string list \<Rightarrow> string list" where
  "reconcile i isFav favs =
     (let inFavorites = (i \<in> set favs)
      in if isFav \<and> \<not> inFavorites then favs @ [i]
         else if \<not> isFav \<and> inFavorites then filter (\<lambda>fId. fId \<noteq> i) favs
         else favs)"

definition updateContact :: "string \<Rightarrow> ContactUpdates \<Rightarrow> ContactState \<Rightarrow> ContactState" where
  "updateContact i u s =
     (case look_up (contacts s) i of
        Own c \<Rightarrow>
          let c' = assign c u;
              inFavorites = (i \<in> set (favorites s))
          in s\<lparr> contacts := (contacts s)(i \<mapsto> c'),
                favorites :=
                  (if isFavorite c' \<and> \<not> inFavorites then favorites s @ [i]
                   else if \<not> isFavorite c' \<and> inFavorites then filter (\<lambda>fId. fId \<noteq> i) (favorites s)
                   else favorites s) \<rparr>
      | InheritedFunction \<Rightarrow>
          if u_name u \<noteq> None
          then (if u_isFavorite u = None then s else s\<lparr> beyond := True \<rparr>)
          else
            let flags = (case u_isFavorite u of
                           None \<Rightarrow> function_flags s
                         | Some b \<Rightarrow> (function_flags s)(i \<mapsto> b))
            in s\<lparr> function_flags := flags,
                  favorites := reconcile i (flags i = Some True) (favorites s) \<rparr>
      | ThePrototype \<Rightarrow> s\<lparr> beyond := True \<rparr>
      | NotFound \<Rightarrow> s)"

definition updateContact_throws :: "string \<Rightarrow> ContactUpdates \<Rightarrow> ContactState \<Rightarrow> bool" where
  "updateContact_throws i u s \<longleftrightarrow>
     look_up (contacts s) i = InheritedFunction \<and> u_name u \<noteq> None"

definition deleteContact :: "string \<Rightarrow> ContactState \<Rightarrow> ContactState" where
  "deleteContact i s =
     s\<lparr> contacts := (contacts s)(i := None),
        favorites := filter (\<lambda>fId. fId \<noteq> i) (favorites s) \<rparr>"

text \<open>
  \<^verbatim>\<open>toggleFavorite\<close>. For the name of an inherited function the flag that is flipped
  is a property of that function, and the identifier is pushed or removed as for a
  contact.
\<close>

definition toggleFavorite :: "string \<Rightarrow> ContactState \<Rightarrow> ContactState" where
  "toggleFavorite i s =
     (case look_up (contacts s) i of
        Own c \<Rightarrow>
          let c' = c\<lparr> isFavorite := \<not> isFavorite c \<rparr>
          in s\<lparr> contacts := (contacts s)(i \<mapsto> c'),
                favorites :=
                  (if isFavorite c'
                   then (if i \<notin> set (favorites s) then favorites s @ [i] else favorites s)
                   else filter (\<lambda>fId. fId \<noteq> i) (favorites s)) \<rparr>
      | InheritedFunction \<Rightarrow>
          let flag = (function_flags s i \<noteq> Some True)
          in s\<lparr> function_flags := (function_flags s)(i \<mapsto> flag),
                favorites :=
                  (if flag
                   then (if i \<notin> set (favorites s) then favorites s @ [i] else favorites s)
                   else filter (\<lambda>fId. fId \<noteq> i) (favorites s)) \<rparr>
      | ThePrototype \<Rightarrow> s\<lparr> beyond := True \<rparr>
      | NotFound \<Rightarrow> s)"

definition setGroups_each :: "ContactState \<Rightarrow> ContactGroup \<Rightarrow> ContactState" where
  "setGroups_each s g =
     (if gid g = ''__proto__'' then s\<lparr> beyond := True \<rparr>
      else s\<lparr> group_map := (group_map s)(gid g \<mapsto> g) \<rparr>)"

definition setGroups :: "ContactGroup list \<Rightarrow> ContactState \<Rightarrow> ContactState" where
  "setGroups gs s = foldl setGroups_each (s\<lparr> group_map := Map.empty \<rparr>) gs"

definition addGroup :: "ContactGroup \<Rightarrow> ContactState \<Rightarrow> ContactState" where
  "addGroup g s =
     (if gid g = ''__proto__'' then s\<lparr> beyond := True \<rparr>
      else s\<lparr> group_map := (group_map s)(gid g \<mapsto> g) \<rparr>)"

text \<open>
  \<^verbatim>\<open>updateGroup\<close> has the same guard. On an inherited function the updates land on
  the function and the store is unchanged (a \<^verbatim>\<open>name\<close> among them makes
  \<^verbatim>\<open>Object.assign\<close> throw).
\<close>

definition updateGroup :: "string \<Rightarrow> GroupUpdates \<Rightarrow> ContactState \<Rightarrow> ContactState" where
  "updateGroup i u s =
     (case look_up (group_map s) i of
        Own g \<Rightarrow> s\<lparr> group_map := (group_map s)(i \<mapsto> assign_group g u) \<rparr>
      | InheritedFunction \<Rightarrow> s
      | ThePrototype \<Rightarrow> s\<lparr> beyond := True \<rparr>
      | NotFound \<Rightarrow> s)"

definition updateGroup_throws :: "string \<Rightarrow> GroupUpdates \<Rightarrow> ContactState \<Rightarrow> bool" where
  "updateGroup_throws i u s \<longleftrightarrow>
     look_up (group_map s) i = InheritedFunction \<and> u_group_name u \<noteq> None"

definition deleteGroup :: "string \<Rightarrow> ContactState \<Rightarrow> ContactState" where
  "deleteGroup i s =
     s\<lparr> group_map := (group_map s)(i := None),
        contacts := (\<lambda>k. map_option
                       (\<lambda>c. c\<lparr> groups := filter (\<lambda>groupId. groupId \<noteq> i) (groups c) \<rparr>)
                       (contacts s k)) \<rparr>"

definition clearError :: "ContactState \<Rightarrow> ContactState" where
  "clearError s = s\<lparr> error := None \<rparr>"

definition reset :: "ContactState \<Rightarrow> ContactState" where
  "reset s =
     s\<lparr> contacts := Map.empty, group_map := Map.empty, favorites := [],
        loading := False, error := None \<rparr>"

subsection \<open>Sequences of store actions\<close>

text \<open>
  The calls a client can make on the store, as data, and the state reached by a
  sequence of them. \<open>SetLoading\<close> and \<open>SetError\<close> are the two direct writes that the
  asynchronous actions make besides calling the synchronous ones.
\<close>

datatype action =
    SetContacts "Contact list"
  | AddContact Contact
  | UpdateContact string ContactUpdates
  | DeleteContact string
  | ToggleFavorite string
  | SetGroups "ContactGroup list"
  | AddGroup ContactGroup
  | UpdateGroup string GroupUpdates
  | DeleteGroup string
  | SetLoading bool
  | SetError "string option"
  | ClearError
  | Reset

fun step :: "action \<Rightarrow> ContactState \<Rightarrow> ContactState" where
  "step (SetContacts cs) s = setContacts cs s"
| "step (AddContact c) s = addContact c s"
| "step (UpdateContact i u) s = updateContact i u s"
| "step (DeleteContact i) s = deleteContact i s"
| "step (ToggleFavorite i) s = toggleFavorite i s"
| "step (SetGroups gs) s = setGroups gs s"
| "step (AddGroup g) s = addGroup g s"
| "step (UpdateGroup i u) s = updateGroup i u s"
| "step (DeleteGroup i) s = deleteGroup i s"
| "step (SetLoading b) s = s\<lparr> loading := b \<rparr>"
| "step (SetError e) s = s\<lparr> error := e \<rparr>"
| "step ClearError s = clearError s"
| "step Reset s = reset s"

fun run :: "action list \<Rightarrow> ContactState \<Rightarrow> ContactState" where
  "run [] s = s"
| "run (a # as) s = run as (step a s)"

section \<open>The jotai store actions (jotai-phonebook/src/store/actions.ts)\<close>

text \<open>
  The jotai variant keeps the same data in separate atoms (\<^verbatim>\<open>contactsAtom\<close>,
  \<^verbatim>\<open>favoritesAtom\<close>, ...); here they are the fields of the same record. Each write
  action reads the atoms with \<^verbatim>\<open>get\<close> and replaces them with \<^verbatim>\<open>set\<close>. These
  actions work on plain objects and build new ones: \<^verbatim>\<open>{...contacts, [id]: value}\<close>
  makes an own property for every key, \<^verbatim>\<open>__proto__\<close> too, and they never write to an
  inherited object. For the name of an inherited value (a function or
  \<^verbatim>\<open>Object.prototype\<close>) that is no own key, the guard \<^verbatim>\<open>if (!contact) return\<close> does
  not return; the spread of the inherited value has no properties, so the object
  stored under the name has the properties of the updates only (for
  \<^verbatim>\<open>toggleFavoriteAction\<close>: only \<^verbatim>\<open>isFavorite: true\<close>). It is not a contact, and the
  contact map of the model cannot hold it: the model gives the favourites list and
  sets \<open>beyond\<close>. In the \<^verbatim>\<open>reduce\<close> of \<^verbatim>\<open>setContactsAction\<close> the assignment
  \<^verbatim>\<open>acc[contact.id] = contact\<close> makes or overwrites an own property, except for the key
  \<^verbatim>\<open>__proto__\<close>: there it replaces the prototype of \<^verbatim>\<open>acc\<close> and leaves its own
  properties as they are (\<open>put\<close>).
\<close>

definition put :: "(string \<rightharpoonup> 'a) \<Rightarrow> string \<Rightarrow> 'a \<Rightarrow> (string \<rightharpoonup> 'a)" where
  "put m k v = (if k = ''__proto__'' then m else m(k \<mapsto> v))"

definition inherited_name :: "string \<Rightarrow> bool" where
  "inherited_name i \<longleftrightarrow> i \<in> set prototype_functions \<or> i = ''__proto__''"

definition setContactsAction :: "Contact list \<Rightarrow> ContactState \<Rightarrow> ContactState" where
  "setContactsAction cs s =
     (let contactsMap = foldl (\<lambda>acc c. put acc (cid c) c) Map.empty cs;
          favs = map cid (filter isFavorite cs)
      in s\<lparr> contacts := contactsMap, favorites := favs,
            beyond := (beyond s \<or> list_ex (\<lambda>c. cid c = ''__proto__'') cs) \<rparr>)"

definition addContactAction :: "Contact \<Rightarrow> ContactState \<Rightarrow> ContactState" where
  "addContactAction c s =
     (let s1 = s\<lparr> contacts := (contacts s)(cid c \<mapsto> c) \<rparr>
      in if isFavorite c
         then (if cid c \<notin> set (favorites s1) then s1\<lparr> favorites := favorites s1 @ [cid c] \<rparr> else s1)
         else s1)"

definition updateContactAction :: "string \<Rightarrow> ContactUpdates \<Rightarrow> ContactState \<Rightarrow> ContactState" where
  "updateContactAction i u s =
     (case contacts s i of
        Some c \<Rightarrow>
          let updatedContact = assign c u;
              s1 = s\<lparr> contacts := (contacts s)(i \<mapsto> updatedContact) \<rparr>
          in if isFavorite updatedContact \<and> i \<notin> set (favorites s1)
             then s1\<lparr> favorites := favorites s1 @ [i] \<rparr>
             else if \<not> isFavorite updatedContact \<and> i \<in> set (favorites s1)
             then s1\<lparr> favorites := filter (\<lambda>fId. fId \<noteq> i) (favorites s1) \<rparr>
             else s1
      | None \<Rightarrow>
          if inherited_name i
          then
            let updatedIsFavorite = (u_isFavorite u = Some True);
                s1 = s\<lparr> beyond := True \<rparr>
            in if updatedIsFavorite \<and> i \<notin> set (favorites s1)
               then s1\<lparr> favorites := favorites s1 @ [i] \<rparr>
               else if \<not> updatedIsFavorite \<and> i \<in> set (favorites s1)
               then s1\<lparr> favorites := filter (\<lambda>fId. fId \<noteq> i) (favorites s1) \<rparr>
               else s1
          else s)"

definition deleteContactAction :: "string \<Rightarrow> ContactState \<Rightarrow> ContactState" where
  "deleteContactAction i s =
     (let s1 = s\<lparr> contacts := (contacts s)(i := None) \<rparr>
      in s1\<lparr> favorites := filter (\<lambda>fId. fId \<noteq> i) (favorites s1) \<rparr>)"

definition toggleFavoriteAction :: "string \<Rightarrow> ContactState \<Rightarrow> ContactState" where
  "toggleFavoriteAction i s =
     (case contacts s i of
        Some c \<Rightarrow>
          let fav = \<not> isFavorite c;
              s1 = s\<lparr> contacts := (contacts s)(i \<mapsto> c\<lparr> isFavorite := fav \<rparr>) \<rparr>
          in if fav
             then (if i \<notin> set (favorites s1) then s1\<lparr> favorites := favorites s1 @ [i] \<rparr> else s1)
             else s1\<lparr> favorites := filter (\<lambda>fId. fId \<noteq> i) (favorites s1) \<rparr>
      | None \<Rightarrow>
          if inherited_name i
          then
            let s1 = s\<lparr> beyond := True \<rparr>
            in if i \<notin> set (favorites s1) then s1\<lparr> favorites := favorites s1 @ [i] \<rparr> else s1
          else s)"

section \<open>The asynchronous actions of the store (contactStore.ts, lines 116 to 225)\<close>

text \<open>
  A remote call either resolves with \<^verbatim>\<open>response.data\<close> (\<open>Inr\<close>) or rejects with the
  thrown value (\<open>Inl\<close>). A thrown value is an \<^verbatim>\<open>Error\<close> with its message, or
  something else. An asynchronous action returns the store after it has settled,
  with the way its own promise settled: \<open>Resolved\<close>, or \<open>Rejected\<close> with the value
  it re-throws. The remote call (\<^verbatim>\<open>services/api.ts\<close>, an HTTP request) is an argument:
  a function from what the store sends to the outcome; \<^verbatim>\<open>crypto.randomUUID()\<close> and
  the two \<^verbatim>\<open>new Date()\<close> values are arguments too. The state argument of the part after the \<^verbatim>\<open>await\<close> is the store as it is when
  the call returns.
\<close>

datatype thrown = ErrorObject (message: string) | OtherValue string

datatype settled = Resolved | Rejected thrown

definition errorText :: "thrown \<Rightarrow> string \<Rightarrow> string" where
  "errorText e fallback = (case e of ErrorObject m \<Rightarrow> m | OtherValue _ \<Rightarrow> fallback)"

definition fetchContacts_begin :: "ContactState \<Rightarrow> ContactState" where
  "fetchContacts_begin s = s\<lparr> loading := True, error := None \<rparr>"

definition fetchContacts_settle :: "thrown + Contact list \<Rightarrow> ContactState \<Rightarrow> ContactState \<times> settled" where
  "fetchContacts_settle response s =
     (let s1 = (case response of
                  Inr data \<Rightarrow> setContacts data s
                | Inl e \<Rightarrow> s\<lparr> error := Some (errorText e ''Failed to fetch contacts'') \<rparr>)
      in (s1\<lparr> loading := False \<rparr>, Resolved))"

definition fetchContacts :: "thrown + Contact list \<Rightarrow> ContactState \<Rightarrow> ContactState \<times> settled" where
  "fetchContacts response s = fetchContacts_settle response (fetchContacts_begin s)"

definition createContact ::
  "(Contact \<Rightarrow> thrown + Contact) \<Rightarrow> Contact \<Rightarrow> string \<Rightarrow> int \<Rightarrow> int \<Rightarrow> ContactState
     \<Rightarrow> ContactState \<times> settled" where
  "createContact api contactData uuid now1 now2 s =
     (let contact = contactData\<lparr> cid := uuid, createdAt := now1, updatedAt := now2 \<rparr>
      in case api contact of
           Inr data \<Rightarrow> (addContact data s, Resolved)
         | Inl e \<Rightarrow> (s\<lparr> error := Some (errorText e ''Failed to create contact'') \<rparr>, Rejected e))"

text \<open>
  \<^verbatim>\<open>saveContact\<close> passes \<^verbatim>\<open>response.data\<close>, a whole contact, as the \<^verbatim>\<open>updates\<close> of
  \<^verbatim>\<open>updateContact\<close>: every property the contact has is present.
\<close>

definition as_updates :: "Contact \<Rightarrow> ContactUpdates" where
  "as_updates c =
     \<lparr> u_cid = Some (cid c), u_name = Some (name c), u_phones = Some (phones c),
       u_emails = Some (emails c), u_address = address c, u_company = company c,
       u_notes = contact_notes c, u_avatar = avatar c, u_groups = Some (groups c),
       u_isFavorite = Some (isFavorite c), u_createdAt = Some (createdAt c),
       u_updatedAt = Some (updatedAt c) \<rparr>"

text \<open>
  When \<^verbatim>\<open>contact.id\<close> is the name of an inherited function, the \<^verbatim>\<open>updateContact\<close>
  call inside the \<^verbatim>\<open>try\<close> throws (the response has a \<^verbatim>\<open>name\<close>); the \<^verbatim>\<open>catch\<close> records
  the message of the \<^verbatim>\<open>TypeError\<close> and throws it again. The wording of that message
  is the engine's; \<open>readOnlyNameMessage\<close> has the wording of V8.
\<close>

definition function_source :: "string \<Rightarrow> string" where
  "function_source i =
     ''function '' @ (if i = ''constructor'' then ''Object'' else i) @ ''() { [native code] }''"

definition readOnlyNameMessage :: "string \<Rightarrow> string" where
  "readOnlyNameMessage i =
     ''Cannot assign to read only property '' @ [CHR 0x27] @ ''name'' @ [CHR 0x27]
       @ '' of function '' @ [CHR 0x27] @ function_source i @ [CHR 0x27]"

definition saveContact ::
  "(string \<Rightarrow> Contact \<Rightarrow> thrown + Contact) \<Rightarrow> Contact \<Rightarrow> int \<Rightarrow> ContactState
     \<Rightarrow> ContactState \<times> settled" where
  "saveContact api contact now s =
     (case api (cid contact) (contact\<lparr> updatedAt := now \<rparr>) of
        Inr data \<Rightarrow>
          if updateContact_throws (cid contact) (as_updates data) s
          then ((updateContact (cid contact) (as_updates data) s)
                  \<lparr> error := Some (readOnlyNameMessage (cid contact)) \<rparr>,
                Rejected (ErrorObject (readOnlyNameMessage (cid contact))))
          else (updateContact (cid contact) (as_updates data) s, Resolved)
      | Inl e \<Rightarrow> (s\<lparr> error := Some (errorText e ''Failed to save contact'') \<rparr>, Rejected e))"

definition removeContact ::
  "(string \<Rightarrow> thrown + unit) \<Rightarrow> string \<Rightarrow> ContactState \<Rightarrow> ContactState \<times> settled" where
  "removeContact api i s =
     (case api i of
        Inr _ \<Rightarrow> (deleteContact i s, Resolved)
      | Inl e \<Rightarrow> (s\<lparr> error := Some (errorText e ''Failed to delete contact'') \<rparr>, Rejected e))"

definition fetchGroups :: "thrown + ContactGroup list \<Rightarrow> ContactState \<Rightarrow> ContactState \<times> settled" where
  "fetchGroups response s =
     (case response of
        Inr data \<Rightarrow> (setGroups data s, Resolved)
      | Inl e \<Rightarrow> (s\<lparr> error := Some (errorText e ''Failed to fetch groups'') \<rparr>, Resolved))"

section \<open>The search service (services/search.ts)\<close>

text \<open>
  The query is the one string whose characters the code inspects (\<^verbatim>\<open>trim\<close>), so it
  is a list of UTF-16 code units. \<^verbatim>\<open>String.prototype.trim\<close> removes the code units of
  the ECMAScript productions WhiteSpace and LineTerminator from both ends.
\<close>

type_synonym utf16 = "16 word list"

definition isWhiteSpace :: "16 word \<Rightarrow> bool" where
  "isWhiteSpace c \<longleftrightarrow>
     c \<in> {0x9, 0xA, 0xB, 0xC, 0xD, 0x20, 0xA0, 0x1680, 0x2028, 0x2029, 0x202F, 0x205F,
          0x3000, 0xFEFF}
     \<or> (0x2000 \<le> c \<and> c \<le> 0x200A)"

definition trim :: "utf16 \<Rightarrow> utf16" where
  "trim s = rev (dropWhile isWhiteSpace (rev (dropWhile isWhiteSpace s)))"

text \<open>
  \<^verbatim>\<open>SearchContactsRequest\<close>: \<^verbatim>\<open>filters\<close>, its two properties, \<^verbatim>\<open>limit\<close> and
  \<^verbatim>\<open>offset\<close> are optional. The two numbers are integers here (of either sign);
  \<^verbatim>\<open>NaN\<close> and fractions are outside the model.
\<close>

record RequestFilters =
  rf_groups :: "string list option"
  rf_favorites :: "bool option"

record SearchContactsRequest =
  query :: utf16
  filters :: "RequestFilters option"
  limit :: "int option"
  offset :: "int option"

text \<open>\<^verbatim>\<open>x || d\<close> on an optional number: \<^verbatim>\<open>undefined\<close> and \<^verbatim>\<open>0\<close> are falsy.\<close>

definition orDefault :: "int option \<Rightarrow> int \<Rightarrow> int" where
  "orDefault x d = (case x of None \<Rightarrow> d | Some n \<Rightarrow> if n = 0 then d else n)"

text \<open>
  \<^verbatim>\<open>Array.prototype.slice(start, end)\<close>: a negative index counts from the end, and
  both are clamped to the array.
\<close>

definition js_slice :: "'a list \<Rightarrow> int \<Rightarrow> int \<Rightarrow> 'a list" where
  "js_slice xs start fin =
     (let len = int (length xs);
          k = (if start < 0 then max (len + start) 0 else min start len);
          final = (if fin < 0 then max (len + fin) 0 else min fin len)
      in take (nat (final - k)) (drop (nat k) xs))"

text \<open>
  \<^verbatim>\<open>Array.prototype.sort(compareFn)\<close> is a stable sort: an element goes before the
  elements it does not compare greater than, and equal elements keep their order. For
  a comparator that is not a consistent order the language leaves the result to the
  implementation; the model is then one of the permitted results. The source sorts
  the array in place; the model gives the array that is returned.
\<close>

fun insert_by :: "('a \<Rightarrow> 'a \<Rightarrow> int) \<Rightarrow> 'a \<Rightarrow> 'a list \<Rightarrow> 'a list" where
  "insert_by cmp x [] = [x]"
| "insert_by cmp x (y # ys) = (if cmp x y \<le> 0 then x # y # ys else y # insert_by cmp x ys)"

definition js_sort :: "('a \<Rightarrow> 'a \<Rightarrow> int) \<Rightarrow> 'a list \<Rightarrow> 'a list" where
  "js_sort cmp xs = foldr (insert_by cmp) xs []"

text \<open>
  \<^verbatim>\<open>searchService.searchContacts\<close>. Two things it calls are not code of the repository
  and are arguments: \<open>localeCompare\<close>, the comparison of the JavaScript runtime
  (\<^verbatim>\<open>String.prototype.localeCompare\<close> in the default locale), and \<open>fuse\<close>, the items
  that \<^verbatim>\<open>new Fuse(list, fuseOptions).search(query)\<close> returns, best match first.
\<close>

definition searchContacts ::
  "(string \<Rightarrow> string \<Rightarrow> int) \<Rightarrow> (Contact list \<Rightarrow> utf16 \<Rightarrow> Contact list) \<Rightarrow> Contact list
     \<Rightarrow> SearchContactsRequest \<Rightarrow> Contact list" where
  "searchContacts localeCompare fuse cs request =
     (let byGroup =
            (case filters request of
               None \<Rightarrow> cs
             | Some f \<Rightarrow>
                 (case rf_groups f of
                    None \<Rightarrow> cs
                  | Some gs \<Rightarrow>
                      if length gs \<noteq> 0
                      then filter (\<lambda>contact. list_ex (\<lambda>g. g \<in> set gs) (groups contact)) cs
                      else cs));
          filteredContacts =
            (case filters request of
               None \<Rightarrow> byGroup
             | Some f \<Rightarrow> if rf_favorites f = Some True then filter isFavorite byGroup else byGroup);
          start = orDefault (offset request) 0;
          final = orDefault (offset request) 0 + orDefault (limit request) 50
      in if trim (query request) = []
         then js_slice
                (js_sort (\<lambda>a b. localeCompare (last_name (name a)) (last_name (name b)))
                   filteredContacts)
                start final
         else js_slice (fuse filteredContacts (query request)) start final)"

subsection \<open>Two comparators\<close>

text \<open>
  \<open>ordinalCompare\<close> compares two strings character code by character code.
  \<open>collate\<close> is the order of a dictionary: letters are compared without regard to
  case first, and only strings equal up to case are separated by case, lower case
  first. On strings of ASCII letters this is what the default locales of the
  JavaScript runtimes give, for instance \<^verbatim>\<open>'a'.localeCompare('B') < 0\<close> while
  \<^verbatim>\<open>'B' < 'a'\<close> by character code.
\<close>

definition ordinalCompare :: "string \<Rightarrow> string \<Rightarrow> int" where
  "ordinalCompare a b = (if a < b then - 1 else if b < a then 1 else 0)"

definition letter_key :: "char \<Rightarrow> nat" where
  "letter_key c = (let n = of_char c in if 65 \<le> n \<and> n \<le> 90 then n + 32 else n)"

definition collate :: "string \<Rightarrow> string \<Rightarrow> int" where
  "collate a b =
     (let ka = map letter_key a; kb = map letter_key b
      in if ka < kb then - 1 else if kb < ka then 1
         else if a = b then 0 else if b < a then - 1 else 1)"

section \<open>The search store (valtio-phonebook/src/store/searchStore.ts)\<close>

text \<open>
  \<^verbatim>\<open>SearchState\<close>, with the prefix \<open>s_\<close> on the two fields that share their name with
  the request. \<^verbatim>\<open>setTimeout(callback, 100)\<close> is modelled by a queue: a call puts the
  callback, that is the values it has captured, at the end of the queue of pending
  timers, and a timer event runs the callback at the front (timers of equal delay
  run in the order they were set). \<open>cs\<close> is \<^verbatim>\<open>Object.values(contactState.contacts)\<close>
  at the time of the call. Only \<^verbatim>\<open>setQuery\<close> calls and timer events are modelled, so
  the captured \<^verbatim>\<open>filters\<close> object is not mutated while a timer is pending.
\<close>

record SearchFilters =
  sf_groups :: "string list"
  sf_favorites :: bool
  phoneType :: "string option"
  emailType :: "string option"

record SearchState =
  s_query :: utf16
  s_filters :: SearchFilters
  results :: "Contact list"
  isSearching :: bool

record pending_search =
  p_query :: utf16
  p_filters :: SearchFilters
  p_contacts :: "Contact list"

record World =
  searchState :: SearchState
  timers :: "pending_search list"

definition request_of :: "utf16 \<Rightarrow> SearchFilters \<Rightarrow> SearchContactsRequest" where
  "request_of q f =
     \<lparr> query = q,
       filters = Some \<lparr> rf_groups = Some (sf_groups f), rf_favorites = Some (sf_favorites f) \<rparr>,
       limit = None, offset = None \<rparr>"

definition performSearch :: "Contact list \<Rightarrow> World \<Rightarrow> World" where
  "performSearch cs w =
     (let st = searchState w
      in if trim (s_query st) = []
         then w\<lparr> searchState := st\<lparr> results := [], isSearching := False \<rparr> \<rparr>
         else w\<lparr> searchState := st\<lparr> isSearching := True \<rparr>,
                 timers := timers w @
                   [\<lparr> p_query = s_query st, p_filters = s_filters st, p_contacts = cs \<rparr>] \<rparr>)"

definition setQuery :: "Contact list \<Rightarrow> utf16 \<Rightarrow> World \<Rightarrow> World" where
  "setQuery cs q w = performSearch cs (w\<lparr> searchState := (searchState w)\<lparr> s_query := q \<rparr> \<rparr>)"

definition timer_fires ::
  "(string \<Rightarrow> string \<Rightarrow> int) \<Rightarrow> (Contact list \<Rightarrow> utf16 \<Rightarrow> Contact list) \<Rightarrow> World \<Rightarrow> World" where
  "timer_fires localeCompare fuse w =
     (case timers w of
        [] \<Rightarrow> w
      | p # ps \<Rightarrow>
          w\<lparr> timers := ps,
             searchState := (searchState w)
               \<lparr> results := searchContacts localeCompare fuse (p_contacts p)
                              (request_of (p_query p) (p_filters p)),
                 isSearching := False \<rparr> \<rparr>)"

text \<open>All pending timers run, in their order.\<close>

definition all_timers_fire ::
  "(string \<Rightarrow> string \<Rightarrow> int) \<Rightarrow> (Contact list \<Rightarrow> utf16 \<Rightarrow> Contact list) \<Rightarrow> World \<Rightarrow> World" where
  "all_timers_fire localeCompare fuse w =
     ((timer_fires localeCompare fuse) ^^ length (timers w)) w"

subsection \<open>The zustand search store (zustand-phonebook/src/store/searchStore.ts)\<close>

text \<open>
  The zustand store has the same state. Its \<^verbatim>\<open>setQuery\<close> only stores the text, and
  its \<^verbatim>\<open>searchContacts(contacts)\<close>, which the components call after a change of the
  query, sets a timer whatever the query is.
\<close>

definition store_setQuery :: "utf16 \<Rightarrow> World \<Rightarrow> World" where
  "store_setQuery q w = w\<lparr> searchState := (searchState w)\<lparr> s_query := q \<rparr> \<rparr>"

definition store_searchContacts :: "Contact list \<Rightarrow> World \<Rightarrow> World" where
  "store_searchContacts cs w =
     (let st = searchState w
      in w\<lparr> searchState := st\<lparr> isSearching := True \<rparr>,
            timers := timers w @
              [\<lparr> p_query = s_query st, p_filters = s_filters st, p_contacts = cs \<rparr>] \<rparr>)"

section \<open>Predicates on action sequences and states\<close>

text \<open>
  \<open>keeps_id a\<close>: the action is not an \<^verbatim>\<open>updateContact(i, updates)\<close> whose \<^verbatim>\<open>updates\<close>
  carry an \<^verbatim>\<open>id\<close> other than \<open>i\<close>. \<open>keyed s\<close>: every stored contact has its key as
  its \<^verbatim>\<open>id\<close>.
\<close>

fun keeps_id :: "action \<Rightarrow> bool" where
  "keeps_id (UpdateContact i u) = (u_cid u = None \<or> u_cid u = Some i)"
| "keeps_id _ = True"

definition keyed :: "ContactState \<Rightarrow> bool" where
  "keyed s \<longleftrightarrow> (\<forall>k c. contacts s k = Some c \<longrightarrow> cid c = k)"

text \<open>
  \<open>fav_consistent s\<close>: the favourites list has no duplicates and holds exactly the keys
  of the contacts whose flag is set. \<open>reconciles a s\<close>: the action, in the state \<open>s\<close>, is
  not an \<^verbatim>\<open>addContact\<close> of a contact that is not a favourite over a listed identifier,
  not a \<^verbatim>\<open>setContacts\<close> of a list with a repeated identifier, and does not meet an
  inherited name (\<open>plain_id\<close>: the identifier is no name that objects inherit);
  \<open>reconciling\<close> says so of every action of a sequence, each in the state it is applied
  to.
\<close>

definition fav_consistent :: "ContactState \<Rightarrow> bool" where
  "fav_consistent s \<longleftrightarrow>
     distinct (favorites s)
     \<and> (\<forall>i. i \<in> set (favorites s) \<longleftrightarrow> (\<exists>c. contacts s i = Some c \<and> isFavorite c))"

definition plain_id :: "string \<Rightarrow> bool" where
  "plain_id i \<longleftrightarrow> i \<notin> set prototype_functions \<and> i \<noteq> ''__proto__''"

fun reconciles :: "action \<Rightarrow> ContactState \<Rightarrow> bool" where
  "reconciles (AddContact c) s = (isFavorite c \<or> cid c \<notin> set (favorites s))"
| "reconciles (SetContacts cs) s = distinct (map cid cs)"
| "reconciles (UpdateContact i u) s = (contacts s i \<noteq> None \<or> plain_id i)"
| "reconciles (ToggleFavorite i) s = (contacts s i \<noteq> None \<or> plain_id i)"
| "reconciles _ s = True"

fun reconciling :: "action list \<Rightarrow> ContactState \<Rightarrow> bool" where
  "reconciling [] s = True"
| "reconciling (a # as) s = (reconciles a s \<and> reconciling as (step a s))"

section \<open>Example data\<close>

text \<open>The two contacts of the store's test suite, and the text \<^verbatim>\<open>jo\<close> as a query.\<close>

definition john :: Contact where
  "john =
     \<lparr> cid = ''1'',
       name = \<lparr> first_name = ''John'', last_name = ''Doe'', middle_name = None \<rparr>,
       phones = [\<lparr> phone_id = ''1'', number = ''+1234567890'', phone_kind = Mobile,
                   phone_isPrimary = True \<rparr>],
       emails = [\<lparr> email_id = ''1'', address_text = ''john@example.com'', email_kind = Personal,
                   email_isPrimary = True \<rparr>],
       address = None, company = None, contact_notes = None, avatar = None,
       groups = [], isFavorite = False, createdAt = 1672531200000, updatedAt = 1672531200000 \<rparr>"

definition jane :: Contact where
  "jane = john\<lparr> cid := ''2'',
                name := \<lparr> first_name = ''Jane'', last_name = ''Smith'', middle_name = None \<rparr>,
                isFavorite := True \<rparr>"

definition friends :: ContactGroup where
  "friends =
     \<lparr> gid = ''g1'', group_name = ''Friends'', color = ''#blue'', icon = None,
       group_createdAt = 1672531200000, group_updatedAt = 1672531200000 \<rparr>"

definition no_updates :: ContactUpdates where
  "no_updates =
     \<lparr> u_cid = None, u_name = None, u_phones = None, u_emails = None, u_address = None,
       u_company = None, u_notes = None, u_avatar = None, u_groups = None, u_isFavorite = None,
       u_createdAt = None, u_updatedAt = None \<rparr>"

definition surnamed :: "string \<Rightarrow> Contact" where
  "surnamed l = john\<lparr> name := (name john)\<lparr> last_name := l \<rparr> \<rparr>"

definition query_jo :: utf16 where
  "query_jo = [0x6A, 0x6F]"

definition no_fuse :: "Contact list \<Rightarrow> utf16 \<Rightarrow> Contact list" where
  "no_fuse cs q = []"

text \<open>
  A stand-in for the matcher, for evaluating examples: the contacts whose first name
  starts with the query, without regard to the case of ASCII letters. Fuse returns
  these contacts as well.
\<close>

definition fold_unit :: "16 word \<Rightarrow> 16 word" where
  "fold_unit c = (if 0x41 \<le> c \<and> c \<le> 0x5A then c + 0x20 else c)"

definition code_units :: "string \<Rightarrow> utf16" where
  "code_units s = map of_char s"

definition prefix_fuse :: "Contact list \<Rightarrow> utf16 \<Rightarrow> Contact list" where
  "prefix_fuse cs q =
     filter (\<lambda>c. take (length q) (map fold_unit (code_units (first_name (name c)))) = map fold_unit q) cs"

definition idle_world :: World where
  "idle_world =
     \<lparr> searchState =
         \<lparr> s_query = [],
           s_filters = \<lparr> sf_groups = [], sf_favorites = False, phoneType = None, emailType = None \<rparr>,
           results = [], isSearching = False \<rparr>,
       timers = [] \<rparr>"

section \<open>Properties of the contact store\<close>

subsection \<open>Looking up\<close>

lemma look_up_Own: "m i = Some v \<Longrightarrow> look_up m i = Own v"
  by (simp add: look_up_def)

lemma look_up_plain: "m i = None \<Longrightarrow> plain_id i \<Longrightarrow> look_up m i = NotFound"
  by (simp add: look_up_def plain_id_def)

lemma look_up_Own_iff: "look_up m i = Own v \<longleftrightarrow> m i = Some v"
  by (simp add: look_up_def split: option.splits)

lemma foldl_setContacts_each_rest:
  "group_map (foldl setContacts_each s cs) = group_map s
   \<and> loading (foldl setContacts_each s cs) = loading s
   \<and> error (foldl setContacts_each s cs) = error s
   \<and> function_flags (foldl setContacts_each s cs) = function_flags s"
  by (induction cs arbitrary: s) (simp_all add: setContacts_each_def)

lemma foldl_setGroups_each_rest:
  "contacts (foldl setGroups_each s gs) = contacts s
   \<and> favorites (foldl setGroups_each s gs) = favorites s"
  by (induction gs arbitrary: s) (simp_all add: setGroups_each_def)

subsection \<open>Unknown identifiers\<close>

text \<open>
  For an identifier that is no key of the contact map and no name that objects
  inherit, \<^verbatim>\<open>updateContact\<close> and \<^verbatim>\<open>toggleFavorite\<close> return the state they were given
  and do not throw, in every state; \<^verbatim>\<open>deleteContact\<close> does so when the identifier is
  not listed as a favourite.
\<close>

lemma plain_unknown_id_is_noop:
  assumes "contacts s i = None" and "plain_id i"
  shows "updateContact i u s = s"
    and "toggleFavorite i s = s"
    and "\<not> updateContact_throws i u s"
    and "i \<notin> set (favorites s) \<Longrightarrow> deleteContact i s = s"
proof -
  have l: "look_up (contacts s) i = NotFound"
    using assms by (rule look_up_plain)
  show "updateContact i u s = s" by (simp add: updateContact_def l)
  show "toggleFavorite i s = s" by (simp add: toggleFavorite_def l)
  show "\<not> updateContact_throws i u s" by (simp add: updateContact_throws_def l)
  show "deleteContact i s = s" if "i \<notin> set (favorites s)"
  proof -
    have "filter (\<lambda>fId. fId \<noteq> i) (favorites s) = favorites s"
      using that by (auto simp: filter_id_conv)
    moreover have "(contacts s)(i := None) = contacts s"
      using assms(1) by (simp add: fun_upd_idem)
    ultimately show ?thesis by (simp add: deleteContact_def)
  qed
qed

text \<open>
  Claim C3. The claim asks that \<^verbatim>\<open>updateContact\<close>, \<^verbatim>\<open>deleteContact\<close> and
  \<^verbatim>\<open>toggleFavorite\<close> with an identifier that is not in the contact map leave the
  store as it is and raise no exception. The guard of the code,
  \<^verbatim>\<open>if (state.contacts[id])\<close>, lets the names pass that every object inherits. In the
  empty store, where \<^verbatim>\<open>toString\<close> is no key of the contact map:
  \<^verbatim>\<open>toggleFavorite('toString')\<close> leaves the favourites \<^verbatim>\<open>['toString']\<close>, and so does
  \<^verbatim>\<open>updateContact('toString', {isFavorite: true})\<close>;
  \<^verbatim>\<open>updateContact('toString', {name: ...})\<close> throws; the jotai
  \<^verbatim>\<open>toggleFavoriteAction('toString')\<close> pushes the identifier as well; and after the
  toggle, \<^verbatim>\<open>deleteContact('toString')\<close>, still with no such key in the map, changes
  the favourites back to the empty list.
\<close>

theorem inherited_name_passes_guard:
  "contacts initial_state ''toString'' = None
   \<and> favorites (toggleFavorite ''toString'' initial_state) = [''toString'']
   \<and> contacts (toggleFavorite ''toString'' initial_state) ''toString'' = None
   \<and> favorites (updateContact ''toString'' (no_updates\<lparr> u_isFavorite := Some True \<rparr>) initial_state)
       = [''toString'']
   \<and> updateContact_throws ''toString'' (no_updates\<lparr> u_name := Some (name john) \<rparr>) initial_state
   \<and> favorites (toggleFavoriteAction ''toString'' initial_state) = [''toString'']
   \<and> favorites (deleteContact ''toString'' (toggleFavorite ''toString'' initial_state)) = []"
  by (simp add: toggleFavorite_def updateContact_def updateContact_throws_def toggleFavoriteAction_def
        deleteContact_def look_up_def prototype_functions_def inherited_name_def reconcile_def
        initial_state_def no_updates_def Let_def)

subsection \<open>Favourites after an overwriting \<^verbatim>\<open>addContact\<close>\<close>

text \<open>
  Claim C1. The claim asks that after every sequence of \<^verbatim>\<open>addContact\<close>,
  \<^verbatim>\<open>updateContact\<close>, \<^verbatim>\<open>toggleFavorite\<close> and \<^verbatim>\<open>deleteContact\<close> calls the favourites
  list holds exactly the identifiers of the contacts whose flag is set, and in
  particular that adding a contact that is not a favourite over an identifier that is
  listed removes it from the list. The code does not: after \<^verbatim>\<open>addContact\<close> of the
  favourite contact \<^verbatim>\<open>2\<close> and then of the same contact with the flag off, the list is
  still \<^verbatim>\<open>['2']\<close> while the stored contact is not a favourite. \<^verbatim>\<open>addContact\<close> only
  ever appends; \<^verbatim>\<open>updateContact\<close> and \<^verbatim>\<open>toggleFavorite\<close> remove as well. The jotai
  action does the same.
\<close>

theorem addContact_overwrite_leaves_stale_favorite:
  "favorites (run [AddContact jane, AddContact (jane\<lparr> isFavorite := False \<rparr>)] initial_state) = [''2'']
   \<and> map_option isFavorite
       (contacts (run [AddContact jane, AddContact (jane\<lparr> isFavorite := False \<rparr>)] initial_state) ''2'')
     = Some False
   \<and> favorites (addContactAction (jane\<lparr> isFavorite := False \<rparr>) (addContactAction jane initial_state)) = [''2'']
   \<and> map_option isFavorite
       (contacts (addContactAction (jane\<lparr> isFavorite := False \<rparr>) (addContactAction jane initial_state)) ''2'')
     = Some False"
  by (simp add: addContact_def addContactAction_def initial_state_def jane_def john_def)

subsection \<open>\<^verbatim>\<open>setContacts\<close> on a list with a repeated identifier\<close>

text \<open>
  Claim C4. The claim asks that \<^verbatim>\<open>setContacts\<close>, on any list of contacts (repeated
  identifiers allowed, the last one wins), leaves a favourites list without
  duplicates that agrees with the flags of the contacts in the new map. The contact
  map is replaced as the claim says, but the code pushes one entry for every flagged
  element of the input and never looks at what is listed or stored: for the
  favourite contact \<^verbatim>\<open>2\<close> followed by the same contact with the flag off, the list is
  \<^verbatim>\<open>['2']\<close> although the stored contact is not a favourite, and for the favourite
  contact given twice the list is \<^verbatim>\<open>['2', '2']\<close>. The jotai action does the same.
\<close>

theorem setContacts_duplicate_ids:
  "favorites (setContacts [jane, jane\<lparr> isFavorite := False \<rparr>] initial_state) = [''2'']
   \<and> map_option isFavorite (contacts (setContacts [jane, jane\<lparr> isFavorite := False \<rparr>] initial_state) ''2'')
       = Some False
   \<and> favorites (setContacts [jane, jane] initial_state) = [''2'', ''2'']
   \<and> contacts (setContacts [jane, jane] initial_state) ''2'' = Some jane
   \<and> favorites (setContactsAction [jane, jane\<lparr> isFavorite := False \<rparr>] initial_state) = [''2'']
   \<and> map_option isFavorite
         (contacts (setContactsAction [jane, jane\<lparr> isFavorite := False \<rparr>] initial_state) ''2'')
       = Some False
   \<and> favorites (setContactsAction [jane, jane] initial_state) = [''2'', ''2'']"
  by (simp add: setContacts_def setContacts_each_def setContactsAction_def put_def initial_state_def
        jane_def john_def)

subsection \<open>The favourites list and the flags\<close>

text \<open>
  The favourites list agrees with the flags after every sequence of actions that has
  no \<^verbatim>\<open>addContact\<close> of a contact that is not a favourite over a listed identifier,
  no \<^verbatim>\<open>setContacts\<close> with a repeated identifier, and meets no inherited name
  (\<open>reconciling\<close>).
\<close>

lemma fav_consistent_setContacts_each:
  "fav_consistent s \<Longrightarrow> cid c \<notin> dom (contacts s) \<Longrightarrow> fav_consistent (setContacts_each s c)"
  by (auto simp: fav_consistent_def setContacts_each_def dom_def)

lemma fav_consistent_foldl:
  "fav_consistent s \<Longrightarrow> distinct (map cid cs) \<Longrightarrow> cid ` set cs \<inter> dom (contacts s) = {} \<Longrightarrow>
   fav_consistent (foldl setContacts_each s cs)"
proof (induction cs arbitrary: s)
  case Nil
  then show ?case by simp
next
  case (Cons c cs)
  have fresh: "cid c \<notin> dom (contacts s)" using Cons.prems(3) by auto
  have 1: "fav_consistent (setContacts_each s c)"
    using Cons.prems(1) fresh by (rule fav_consistent_setContacts_each)
  have 2: "cid ` set cs \<inter> dom (contacts (setContacts_each s c)) = {}"
    using Cons.prems(2,3) by (auto simp: setContacts_each_def)
  show ?case using Cons.IH [OF 1 _ 2] Cons.prems(2) by simp
qed

lemma fav_consistent_setContacts:
  "distinct (map cid cs) \<Longrightarrow> fav_consistent (setContacts cs s)"
  unfolding setContacts_def
  by (rule fav_consistent_foldl) (simp_all add: fav_consistent_def)

lemma fav_consistent_updateContact:
  "fav_consistent s \<Longrightarrow> contacts s i \<noteq> None \<or> plain_id i \<Longrightarrow> fav_consistent (updateContact i u s)"
  by (cases "contacts s i")
     (auto simp: fav_consistent_def updateContact_def look_up_Own look_up_plain Let_def)

lemma fav_consistent_toggleFavorite:
  "fav_consistent s \<Longrightarrow> contacts s i \<noteq> None \<or> plain_id i \<Longrightarrow> fav_consistent (toggleFavorite i s)"
  by (cases "contacts s i")
     (auto simp: fav_consistent_def toggleFavorite_def look_up_Own look_up_plain Let_def)

lemma fav_consistent_deleteContact:
  "fav_consistent s \<Longrightarrow> fav_consistent (deleteContact i s)"
  by (auto simp: fav_consistent_def deleteContact_def)

lemma fav_consistent_addContact:
  "fav_consistent s \<Longrightarrow> isFavorite c \<or> cid c \<notin> set (favorites s) \<Longrightarrow> fav_consistent (addContact c s)"
  by (auto simp: fav_consistent_def addContact_def)

lemma fav_consistent_updateGroup:
  "fav_consistent s \<Longrightarrow> fav_consistent (updateGroup i u s)"
  by (simp add: fav_consistent_def updateGroup_def split: looked_up.splits)

lemma fav_consistent_step:
  "fav_consistent s \<Longrightarrow> reconciles a s \<Longrightarrow> fav_consistent (step a s)"
proof (cases a)
  case (SetGroups gs)
  assume "fav_consistent s"
  then show ?thesis
    using SetGroups foldl_setGroups_each_rest [of "s\<lparr> group_map := Map.empty \<rparr>" gs]
    by (simp add: fav_consistent_def setGroups_def)
next
  case (DeleteGroup g)
  assume "fav_consistent s"
  then show ?thesis using DeleteGroup by (auto simp: fav_consistent_def deleteGroup_def)
qed (simp_all add: fav_consistent_setContacts fav_consistent_updateContact
       fav_consistent_toggleFavorite fav_consistent_deleteContact fav_consistent_addContact
       fav_consistent_updateGroup,
     simp_all add: fav_consistent_def addGroup_def clearError_def reset_def)

lemma fav_consistent_run:
  "fav_consistent s \<Longrightarrow> reconciling as s \<Longrightarrow> fav_consistent (run as s)"
proof (induction as arbitrary: s)
  case Nil
  then show ?case by simp
next
  case (Cons a as)
  then show ?case using fav_consistent_step [of s a] by simp
qed

lemma favorites_exact_when_reconciling:
  assumes "reconciling as initial_state"
  shows "distinct (favorites (run as initial_state))"
    and "i \<in> set (favorites (run as initial_state))
           \<longleftrightarrow> (\<exists>c. contacts (run as initial_state) i = Some c \<and> isFavorite c)"
proof -
  have "fav_consistent initial_state" by (simp add: fav_consistent_def initial_state_def)
  then have "fav_consistent (run as initial_state)" using assms by (rule fav_consistent_run)
  then show "distinct (favorites (run as initial_state))"
    and "i \<in> set (favorites (run as initial_state))
           \<longleftrightarrow> (\<exists>c. contacts (run as initial_state) i = Some c \<and> isFavorite c)"
    by (simp_all add: fav_consistent_def)
qed

subsection \<open>The identifier of a stored contact\<close>

lemma keyed_foldl_setContacts_each:
  "keyed s \<Longrightarrow> keyed (foldl setContacts_each s cs)"
proof (induction cs arbitrary: s)
  case Nil
  then show ?case by simp
next
  case (Cons c cs)
  have "keyed (setContacts_each s c)"
    using Cons.prems by (auto simp: keyed_def setContacts_each_def)
  then show ?case using Cons.IH by simp
qed

lemma keyed_setContacts: "keyed (setContacts cs s)"
  unfolding setContacts_def
  by (rule keyed_foldl_setContacts_each) (simp add: keyed_def)

lemma keyed_setGroups: "keyed s \<Longrightarrow> keyed (setGroups gs s)"
  using foldl_setGroups_each_rest [of "s\<lparr> group_map := Map.empty \<rparr>" gs]
  by (simp add: keyed_def setGroups_def)

lemma keyed_updateContact:
  "keyed s \<Longrightarrow> u_cid u = None \<or> u_cid u = Some i \<Longrightarrow> keyed (updateContact i u s)"
  by (auto simp: keyed_def updateContact_def look_up_Own_iff assign_def pick_def Let_def
        split: looked_up.splits option.splits)

lemma keyed_toggleFavorite: "keyed s \<Longrightarrow> keyed (toggleFavorite i s)"
  by (auto simp: keyed_def toggleFavorite_def look_up_Own_iff Let_def split: looked_up.splits)

lemma keyed_updateGroup: "keyed s \<Longrightarrow> keyed (updateGroup i u s)"
  by (simp add: keyed_def updateGroup_def split: looked_up.splits)

lemma keyed_step: "keyed s \<Longrightarrow> keeps_id a \<Longrightarrow> keyed (step a s)"
proof (cases a)
  case (SetContacts cs)
  then show ?thesis by (simp add: keyed_setContacts)
next
  case (UpdateContact i u)
  assume "keyed s" "keeps_id a"
  then show ?thesis using UpdateContact keyed_updateContact [of s u i] by simp
next
  case (SetGroups gs)
  assume "keyed s"
  then show ?thesis using SetGroups by (simp add: keyed_setGroups)
next
  case (DeleteGroup g)
  assume "keyed s"
  then show ?thesis using DeleteGroup by (auto simp: keyed_def deleteGroup_def)
qed (simp_all add: keyed_toggleFavorite keyed_updateGroup,
     auto simp: keyed_def addContact_def deleteContact_def addGroup_def clearError_def
       reset_def)

lemma keyed_run: "keyed s \<Longrightarrow> list_all keeps_id as \<Longrightarrow> keyed (run as s)"
proof (induction as arbitrary: s)
  case Nil
  then show ?case by simp
next
  case (Cons a as)
  then show ?case using keyed_step [of s a] by simp
qed

text \<open>
  Claim C5, as amended. \<^verbatim>\<open>updateContact(i, updates)\<close> copies every property of
  \<^verbatim>\<open>updates\<close> onto the stored contact, an \<^verbatim>\<open>id\<close> included. So the claim holds for
  the sequences of store actions in which no update carries an \<^verbatim>\<open>id\<close> other than the
  key it is applied to: in every state reached from the initial state by such a
  sequence, the contact stored under a key has that key as its \<^verbatim>\<open>id\<close>, however many
  actions have run since it was added.
\<close>

theorem id_field_is_key:
  assumes "list_all keeps_id as" and "contacts (run as initial_state) k = Some c"
  shows "cid c = k"
proof -
  have "keyed initial_state" by (simp add: keyed_def initial_state_def)
  then have "keyed (run as initial_state)" using assms(1) by (rule keyed_run)
  then show ?thesis using assms(2) by (simp add: keyed_def)
qed

theorem id_field_is_key_witness:
  "list_all keeps_id [AddContact john, UpdateContact ''1'' (no_updates\<lparr> u_company := Some ''Acme'' \<rparr>),
      ToggleFavorite ''1'']
   \<and> contacts (run [AddContact john, UpdateContact ''1'' (no_updates\<lparr> u_company := Some ''Acme'' \<rparr>),
        ToggleFavorite ''1''] initial_state) ''1''
     = Some (john\<lparr> company := Some ''Acme'', isFavorite := True \<rparr>)
   \<and> cid (john\<lparr> company := Some ''Acme'', isFavorite := True \<rparr>) = ''1''"
proof -
  let ?as = "[AddContact john, UpdateContact ''1'' (no_updates\<lparr> u_company := Some ''Acme'' \<rparr>),
      ToggleFavorite ''1'']"
  have h1: "list_all keeps_id ?as" by (simp add: no_updates_def)
  have h2: "contacts (run ?as initial_state) ''1'' = Some (john\<lparr> company := Some ''Acme'', isFavorite := True \<rparr>)"
    by (simp add: addContact_def updateContact_def toggleFavorite_def look_up_def
         initial_state_def john_def no_updates_def assign_def pick_def pick_opt_def Let_def)
  show ?thesis using h1 h2 id_field_is_key [OF h1 h2] by simp
qed

text \<open>
  Claim C5 as stated fails: an update whose partial carries the \<^verbatim>\<open>id\<close> \<^verbatim>\<open>9\<close>, applied
  to the contact stored under \<^verbatim>\<open>1\<close>, leaves a contact with \<^verbatim>\<open>id\<close> \<^verbatim>\<open>9\<close> under the
  key \<^verbatim>\<open>1\<close> (zustand and jotai alike).
\<close>

theorem update_overwrites_id_counterexample:
  "map_option cid (contacts (run [AddContact john] initial_state) ''1'') = Some ''1''
   \<and> map_option cid
       (contacts (updateContact ''1'' (no_updates\<lparr> u_cid := Some ''9'' \<rparr>) (run [AddContact john] initial_state)) ''1'')
     = Some ''9''
   \<and> map_option cid
       (contacts (updateContactAction ''1'' (no_updates\<lparr> u_cid := Some ''9'' \<rparr>) (addContactAction john initial_state)) ''1'')
     = Some ''9''"
  by (simp add: addContact_def updateContact_def addContactAction_def updateContactAction_def
        look_up_def initial_state_def john_def no_updates_def assign_def pick_def pick_opt_def
        Let_def)

subsection \<open>Deleting a group\<close>

text \<open>
  Claim C6. After \<^verbatim>\<open>deleteGroup(g)\<close>, from every state: the group map is the old one
  without \<open>g\<close>; the contact map has the same keys, and under every key \<open>k\<close> it has
  the contact that was stored there with all occurrences of \<open>g\<close> removed from its
  membership list and every other field as before, so no membership list contains
  \<open>g\<close>; favourites, loading flag and error are unchanged.
\<close>

theorem deleteGroup_cascade:
  "group_map (deleteGroup g s) = (group_map s)(g := None)
   \<and> dom (contacts (deleteGroup g s)) = dom (contacts s)
   \<and> contacts (deleteGroup g s) k
       = map_option (\<lambda>c. c\<lparr> groups := removeAll g (groups c) \<rparr>) (contacts s k)
   \<and> (\<forall>c'. contacts (deleteGroup g s) k = Some c' \<longrightarrow> g \<notin> set (groups c'))
   \<and> favorites (deleteGroup g s) = favorites s
   \<and> loading (deleteGroup g s) = loading s
   \<and> error (deleteGroup g s) = error s"
proof -
  have rm: "\<And>xs. filter (\<lambda>groupId. groupId \<noteq> g) xs = removeAll g xs"
    by (simp add: removeAll_filter_not_eq) metis
  show ?thesis
    by (auto simp: deleteGroup_def rm dom_def)
qed

theorem deleteGroup_cascade_witness:
  "group_map (run [AddGroup friends, AddContact (john\<lparr> groups := [''g1'', ''g2''] \<rparr>), AddContact jane]
       initial_state) ''g1'' = Some friends
   \<and> group_map (deleteGroup ''g1''
        (run [AddGroup friends, AddContact (john\<lparr> groups := [''g1'', ''g2''] \<rparr>), AddContact jane]
           initial_state)) ''g1'' = None
   \<and> contacts (deleteGroup ''g1''
        (run [AddGroup friends, AddContact (john\<lparr> groups := [''g1'', ''g2''] \<rparr>), AddContact jane]
           initial_state)) ''1'' = Some (john\<lparr> groups := [''g2''] \<rparr>)
   \<and> ''g1'' \<notin> set (groups (john\<lparr> groups := [''g2''] \<rparr>))
   \<and> favorites (deleteGroup ''g1''
        (run [AddGroup friends, AddContact (john\<lparr> groups := [''g1'', ''g2''] \<rparr>), AddContact jane]
           initial_state)) = [''2'']"
  using deleteGroup_cascade [of "''g1''"
      "run [AddGroup friends, AddContact (john\<lparr> groups := [''g1'', ''g2''] \<rparr>), AddContact jane]
         initial_state" "''1''"]
  by (simp add: addGroup_def addContact_def initial_state_def john_def jane_def friends_def)

subsection \<open>Toggling a favourite twice\<close>

text \<open>
  Claim C8, as amended. For a contact that is in the map, \<^verbatim>\<open>toggleFavorite\<close> applied
  twice gives back the contact map, hence the flag, in every state; it gives back the
  membership of the favourites list in the states where the identifier is listed
  exactly if the contact's flag is set.
\<close>

theorem toggleFavorite_twice:
  assumes "contacts s i = Some c"
  shows "contacts (toggleFavorite i (toggleFavorite i s)) = contacts s
       \<and> ((i \<in> set (favorites s) \<longleftrightarrow> isFavorite c)
            \<longrightarrow> set (favorites (toggleFavorite i (toggleFavorite i s))) = set (favorites s))"
  using assms
  by (auto simp: toggleFavorite_def look_up_def Let_def map_upd_triv)

theorem toggleFavorite_twice_witness:
  "contacts (run [AddContact jane] initial_state) ''2'' = Some jane
   \<and> (''2'' \<in> set (favorites (run [AddContact jane] initial_state))) = isFavorite jane
   \<and> contacts (toggleFavorite ''2'' (toggleFavorite ''2'' (run [AddContact jane] initial_state)))
       = contacts (run [AddContact jane] initial_state)
   \<and> set (favorites (toggleFavorite ''2'' (toggleFavorite ''2'' (run [AddContact jane] initial_state))))
       = set (favorites (run [AddContact jane] initial_state))"
proof -
  let ?s = "run [AddContact jane] initial_state"
  have h1: "contacts ?s ''2'' = Some jane"
    by (simp add: addContact_def initial_state_def jane_def)
  have h2: "(''2'' \<in> set (favorites ?s)) = isFavorite jane"
    by (simp add: addContact_def initial_state_def jane_def)
  show ?thesis using h1 h2 toggleFavorite_twice [OF h1] by simp
qed

text \<open>
  Claim C8 as stated fails in a state the store can reach: after \<^verbatim>\<open>addContact\<close> has
  overwritten the favourite contact \<^verbatim>\<open>2\<close> with a copy that is not a favourite, \<^verbatim>\<open>2\<close> is
  still listed; the first toggle sets the flag and finds it listed, the second clears
  the flag and removes it, so the list has lost \<^verbatim>\<open>2\<close>.
\<close>

theorem toggleFavorite_twice_counterexample:
  "set (favorites (toggleFavorite ''2'' (toggleFavorite ''2''
          (run [AddContact jane, AddContact (jane\<lparr> isFavorite := False \<rparr>)] initial_state))))
   \<noteq> set (favorites (run [AddContact jane, AddContact (jane\<lparr> isFavorite := False \<rparr>)] initial_state))"
  by (simp add: toggleFavorite_def look_up_def addContact_def initial_state_def jane_def
        john_def Let_def)

section \<open>Properties of the asynchronous actions\<close>

text \<open>
  Claim C7. When the remote call of an asynchronous action rejects with a value
  \<open>e\<close>, the action writes a text into the store's \<^verbatim>\<open>error\<close> field: the message of
  \<open>e\<close> when it is an \<^verbatim>\<open>Error\<close>, the action's fixed text otherwise; nothing else of
  the store changes (\<^verbatim>\<open>fetchContacts\<close> also ends with \<^verbatim>\<open>loading\<close> off).
  \<^verbatim>\<open>fetchContacts\<close> and \<^verbatim>\<open>fetchGroups\<close> then resolve: the failure does not reach the
  caller. \<^verbatim>\<open>createContact\<close>, \<^verbatim>\<open>saveContact\<close> and \<^verbatim>\<open>removeContact\<close> reject with the
  same \<open>e\<close>.
\<close>

theorem gateway_failure_propagation:
  assumes create_fails: "createApi (contactData\<lparr> cid := uuid, createdAt := t1, updatedAt := t2 \<rparr>) = Inl e"
    and save_fails: "saveApi (cid contact) (contact\<lparr> updatedAt := t \<rparr>) = Inl e"
    and delete_fails: "deleteApi i = Inl e"
  shows "fetchContacts (Inl e) s
           = (s\<lparr> loading := False, error := Some (errorText e ''Failed to fetch contacts'') \<rparr>, Resolved)
       \<and> fetchContacts_settle (Inl e) s
           = (s\<lparr> loading := False, error := Some (errorText e ''Failed to fetch contacts'') \<rparr>, Resolved)
       \<and> fetchGroups (Inl e) s
           = (s\<lparr> error := Some (errorText e ''Failed to fetch groups'') \<rparr>, Resolved)
       \<and> createContact createApi contactData uuid t1 t2 s
           = (s\<lparr> error := Some (errorText e ''Failed to create contact'') \<rparr>, Rejected e)
       \<and> saveContact saveApi contact t s
           = (s\<lparr> error := Some (errorText e ''Failed to save contact'') \<rparr>, Rejected e)
       \<and> removeContact deleteApi i s
           = (s\<lparr> error := Some (errorText e ''Failed to delete contact'') \<rparr>, Rejected e)
       \<and> errorText (ErrorObject m) fallback = m
       \<and> errorText (OtherValue v) fallback = fallback"
  using assms
  by (simp add: fetchContacts_def fetchContacts_begin_def fetchContacts_settle_def
        fetchGroups_def createContact_def saveContact_def removeContact_def errorText_def)

theorem gateway_failure_propagation_witness:
  "fetchContacts (Inl (ErrorObject ''Network Error'')) (run [AddContact john] initial_state)
     = ((run [AddContact john] initial_state)\<lparr> loading := False, error := Some ''Network Error'' \<rparr>, Resolved)
   \<and> createContact (\<lambda>c. Inl (ErrorObject ''Network Error'')) jane ''uuid-1'' 5 6
         (run [AddContact john] initial_state)
     = ((run [AddContact john] initial_state)\<lparr> error := Some ''Network Error'' \<rparr>,
        Rejected (ErrorObject ''Network Error''))
   \<and> saveContact (\<lambda>i c. Inl (ErrorObject ''Network Error'')) john 7 (run [AddContact john] initial_state)
     = ((run [AddContact john] initial_state)\<lparr> error := Some ''Network Error'' \<rparr>,
        Rejected (ErrorObject ''Network Error''))
   \<and> removeContact (\<lambda>i. Inl (ErrorObject ''Network Error'')) ''1'' (run [AddContact john] initial_state)
     = ((run [AddContact john] initial_state)\<lparr> error := Some ''Network Error'' \<rparr>,
        Rejected (ErrorObject ''Network Error''))"
  using gateway_failure_propagation
    [where createApi = "\<lambda>c. Inl (ErrorObject ''Network Error'')"
       and saveApi = "\<lambda>i c. Inl (ErrorObject ''Network Error'')"
       and deleteApi = "\<lambda>i. Inl (ErrorObject ''Network Error'')"
       and e = "ErrorObject ''Network Error''" and contactData = jane and uuid = "''uuid-1''"
       and ?t1.0 = 5 and ?t2.0 = 6 and contact = john and t = 7 and i = "''1''"
       and s = "run [AddContact john] initial_state"]
  by (simp add: errorText_def)

section \<open>Properties of the search service\<close>

subsection \<open>Sorting and slicing\<close>

lemma orDefault_zero: "orDefault (Some 0) d = d" "orDefault None d = d"
  by (simp_all add: orDefault_def)

lemma mset_insert_by: "mset (insert_by cmp x ys) = add_mset x (mset ys)"
  by (induction ys) simp_all

lemma mset_js_sort: "mset (js_sort cmp xs) = mset xs"
  by (induction xs) (simp_all add: js_sort_def mset_insert_by)

lemma length_js_sort: "length (js_sort cmp xs) = length xs"
  using mset_js_sort [of cmp xs] by (metis size_mset)

lemma set_insert_by: "set (insert_by cmp x ys) = insert x (set ys)"
  using mset_insert_by [of cmp x ys] by (metis set_mset_add_mset_insert set_mset_mset)

lemma sorted_insert_by:
  assumes total: "\<And>a b. cmp a b \<le> 0 \<or> cmp b a \<le> 0"
    and trans: "\<And>a b c. cmp a b \<le> 0 \<Longrightarrow> cmp b c \<le> 0 \<Longrightarrow> cmp a c \<le> 0"
  shows "sorted_wrt (\<lambda>a b. cmp a b \<le> 0) ys \<Longrightarrow> sorted_wrt (\<lambda>a b. cmp a b \<le> 0) (insert_by cmp x ys)"
proof (induction ys)
  case Nil
  then show ?case by simp
next
  case (Cons y ys)
  show ?case
  proof (cases "cmp x y \<le> 0")
    case True
    then have "\<forall>z \<in> set ys. cmp x z \<le> 0"
      using Cons.prems trans by auto
    then show ?thesis using True Cons.prems by simp
  next
    case False
    then have "cmp y x \<le> 0" using total [of x y] by simp
    then show ?thesis using False Cons by (auto simp: set_insert_by)
  qed
qed

lemma sorted_js_sort:
  assumes total: "\<And>a b. cmp a b \<le> 0 \<or> cmp b a \<le> 0"
    and trans: "\<And>a b c. cmp a b \<le> 0 \<Longrightarrow> cmp b c \<le> 0 \<Longrightarrow> cmp a c \<le> 0"
  shows "sorted_wrt (\<lambda>a b. cmp a b \<le> 0) (js_sort cmp xs)"
proof (induction xs)
  case Nil
  then show ?case by (simp add: js_sort_def)
next
  case (Cons x xs)
  have "js_sort cmp (x # xs) = insert_by cmp x (js_sort cmp xs)"
    by (simp add: js_sort_def)
  then show ?case using sorted_insert_by [OF total trans Cons.IH] by simp
qed

lemma filter_insert_by_same_key:
  assumes refl: "\<And>a b. key a = key b \<Longrightarrow> cmp a b \<le> 0"
  shows "filter (\<lambda>c. key c = l) (insert_by cmp x ys)
         = (if key x = l then x # filter (\<lambda>c. key c = l) ys else filter (\<lambda>c. key c = l) ys)"
  using refl by (induction ys) auto

lemma filter_js_sort_same_key:
  assumes refl: "\<And>a b. key a = key b \<Longrightarrow> cmp a b \<le> 0"
  shows "filter (\<lambda>c. key c = l) (js_sort cmp xs) = filter (\<lambda>c. key c = l) xs"
proof (induction xs)
  case Nil
  then show ?case by (simp add: js_sort_def)
next
  case (Cons x xs)
  have "js_sort cmp (x # xs) = insert_by cmp x (js_sort cmp xs)"
    by (simp add: js_sort_def)
  then show ?case using Cons filter_insert_by_same_key [of key cmp l x, OF refl] by simp
qed

lemma js_slice_page:
  assumes "0 \<le> start" and "0 \<le> n"
  shows "js_slice xs start (start + n) = take (nat n) (drop (nat start) xs)"
proof (cases "start \<le> int (length xs)")
  case True
  then have "min (start + n) (int (length xs)) - start = min n (int (length xs) - start)"
    by simp
  then show ?thesis using assms True
    by (simp add: js_slice_def Let_def min_def nat_diff_distrib' take_all_iff)
next
  case False
  then show ?thesis using assms by (simp add: js_slice_def Let_def)
qed


subsection \<open>The empty query\<close>

lemma filter_groups_favorites:
  "filter isFavorite (filter (\<lambda>contact. list_ex (\<lambda>g. g \<in> set gs) (groups contact)) cs)
   = filter (\<lambda>c. set (groups c) \<inter> set gs \<noteq> {} \<and> isFavorite c) cs"
  by (induction cs) (auto simp: list_ex_iff)

text \<open>
  Claim C2, as amended. When the trimmed query is empty, the offset and the limit (if
  given) are not negative, and the runtime's \<open>localeCompare\<close> is a consistent
  comparator (total and transitive), \<^verbatim>\<open>searchContacts\<close> returns a page of a list
  \<open>ordered\<close> which
  \<^item> has exactly the contacts that pass the filters (a member of one of the filter's
    groups when the group filter is not empty, a favourite when the favourites filter
    is on; all contacts when there are no filters),
  \<^item> is in ascending order of surname by \<open>localeCompare\<close>, the order the runtime's
    locale gives and not the order of character codes,
  \<^item> keeps contacts of the same surname in the order they had;
  the page starts at the offset (default 0) and has the size of the limit, where an
  absent limit and a limit of 0 both mean 50.
\<close>

theorem search_blank_query:
  fixes localeCompare :: "string \<Rightarrow> string \<Rightarrow> int"
  assumes blank: "trim (query r) = []"
    and total: "\<forall>a b. localeCompare a b \<le> 0 \<or> localeCompare b a \<le> 0"
    and trans: "\<forall>a b c. localeCompare a b \<le> 0 \<longrightarrow> localeCompare b c \<le> 0 \<longrightarrow> localeCompare a c \<le> 0"
    and off: "\<forall>k. offset r = Some k \<longrightarrow> 0 \<le> k"
    and lim: "\<forall>n. limit r = Some n \<longrightarrow> 0 \<le> n"
  defines "gs \<equiv> (case filters r of None \<Rightarrow> [] | Some f \<Rightarrow> (case rf_groups f of None \<Rightarrow> [] | Some g \<Rightarrow> g))"
    and "favs \<equiv> (case filters r of None \<Rightarrow> False | Some f \<Rightarrow> rf_favorites f = Some True)"
    and "page \<equiv> (case limit r of None \<Rightarrow> 50 | Some n \<Rightarrow> if n = 0 then 50 else nat n)"
    and "start \<equiv> (case offset r of None \<Rightarrow> 0 | Some k \<Rightarrow> nat k)"
  shows "\<exists>ordered.
           mset ordered
             = mset (filter (\<lambda>c. (gs = [] \<or> set (groups c) \<inter> set gs \<noteq> {}) \<and> (favs \<longrightarrow> isFavorite c)) cs)
         \<and> sorted_wrt (\<lambda>a b. localeCompare (last_name (name a)) (last_name (name b)) \<le> 0) ordered
         \<and> (\<forall>l. filter (\<lambda>c. last_name (name c) = l) ordered
                 = filter (\<lambda>c. last_name (name c) = l)
                     (filter (\<lambda>c. (gs = [] \<or> set (groups c) \<inter> set gs \<noteq> {}) \<and> (favs \<longrightarrow> isFavorite c)) cs))
         \<and> searchContacts localeCompare fuse cs r = take page (drop start ordered)"
proof -
  define wanted where "wanted = (\<lambda>c :: Contact. (gs = [] \<or> set (groups c) \<inter> set gs \<noteq> {}) \<and> (favs \<longrightarrow> isFavorite c))"
  define cmp where "cmp = (\<lambda>(a :: Contact) (b :: Contact). localeCompare (last_name (name a)) (last_name (name b)))"
  define byGroup where "byGroup =
     (case filters r of None \<Rightarrow> cs
      | Some f \<Rightarrow> (case rf_groups f of None \<Rightarrow> cs
          | Some g \<Rightarrow> if length g \<noteq> 0
                      then filter (\<lambda>contact. list_ex (\<lambda>x. x \<in> set g) (groups contact)) cs else cs))"
  define filtered where "filtered =
     (case filters r of None \<Rightarrow> byGroup
      | Some f \<Rightarrow> if rf_favorites f = Some True then filter isFavorite byGroup else byGroup)"
  have byGroup: "byGroup = filter (\<lambda>c. gs = [] \<or> set (groups c) \<inter> set gs \<noteq> {}) cs"
    by (auto simp: byGroup_def gs_def list_ex_iff split: option.splits intro: filter_cong)
  have filtered: "filtered = filter wanted cs"
    unfolding filtered_def byGroup wanted_def favs_def
    by (auto split: option.splits intro: filter_cong)
  have start: "orDefault (offset r) 0 = int start" "0 \<le> orDefault (offset r) 0"
    using off by (auto simp: orDefault_def start_def split: option.splits)
  have page: "orDefault (limit r) 50 = int page" "0 \<le> orDefault (limit r) 50"
    using lim by (auto simp: orDefault_def page_def split: option.splits)
  have "searchContacts localeCompare fuse cs r
        = js_slice (js_sort cmp filtered) (orDefault (offset r) 0)
            (orDefault (offset r) 0 + orDefault (limit r) 50)"
    unfolding searchContacts_def Let_def cmp_def filtered_def byGroup_def using blank by simp
  also have "\<dots> = take page (drop start (js_sort cmp filtered))"
    using js_slice_page [OF start(2) page(2)] by (simp add: start(1) page(1))
  finally have result: "searchContacts localeCompare fuse cs r = take page (drop start (js_sort cmp filtered))" .
  have sorted: "sorted_wrt (\<lambda>a b. cmp a b \<le> 0) (js_sort cmp filtered)"
  proof (rule sorted_js_sort)
    show "\<And>a b. cmp a b \<le> 0 \<or> cmp b a \<le> 0" using total by (simp add: cmp_def)
    show "\<And>a b c. cmp a b \<le> 0 \<Longrightarrow> cmp b c \<le> 0 \<Longrightarrow> cmp a c \<le> 0"
      using trans unfolding cmp_def by blast
  qed
  have stable: "\<forall>l. filter (\<lambda>c. last_name (name c) = l) (js_sort cmp filtered)
                  = filter (\<lambda>c. last_name (name c) = l) filtered"
  proof
    fix l
    show "filter (\<lambda>c. last_name (name c) = l) (js_sort cmp filtered)
            = filter (\<lambda>c. last_name (name c) = l) filtered"
    proof (rule filter_js_sort_same_key)
      fix a b :: Contact
      assume "last_name (name a) = last_name (name b)"
      moreover have "localeCompare (last_name (name b)) (last_name (name b)) \<le> 0"
        using total by blast
      ultimately show "cmp a b \<le> 0" by (simp add: cmp_def)
    qed
  qed
  show ?thesis
    using result sorted stable mset_js_sort [of cmp filtered]
    unfolding filtered wanted_def cmp_def by blast
qed

lemma ordinalCompare_total: "\<forall>a b. ordinalCompare a b \<le> 0 \<or> ordinalCompare b a \<le> 0"
  by (simp add: ordinalCompare_def)

lemma ordinalCompare_trans:
  "\<forall>a b c. ordinalCompare a b \<le> 0 \<longrightarrow> ordinalCompare b c \<le> 0 \<longrightarrow> ordinalCompare a c \<le> 0"
  by (auto simp: ordinalCompare_def split: if_splits)

theorem search_blank_query_witness:
  "(\<exists>ordered.
      mset ordered = mset [jane, john]
    \<and> sorted_wrt (\<lambda>a b. ordinalCompare (last_name (name a)) (last_name (name b)) \<le> 0) ordered
    \<and> searchContacts ordinalCompare no_fuse [jane, john]
          \<lparr> query = [0x20], filters = None, limit = Some 1, offset = None \<rparr> = take 1 (drop 0 ordered))
   \<and> searchContacts ordinalCompare no_fuse [jane, john]
          \<lparr> query = [0x20], filters = None, limit = Some 1, offset = None \<rparr> = [john]"
proof -
  let ?r = "\<lparr> query = [0x20], filters = None, limit = Some 1, offset = None \<rparr>"
  have blank: "trim (query ?r) = []" by (simp add: trim_def isWhiteSpace_def)
  have off: "\<forall>k. offset ?r = Some k \<longrightarrow> 0 \<le> k" by simp
  have lim: "\<forall>n. limit ?r = Some n \<longrightarrow> 0 \<le> n" by simp
  have "searchContacts ordinalCompare no_fuse [jane, john] ?r = [john]"
    by (simp add: searchContacts_def trim_def isWhiteSpace_def orDefault_def js_slice_def
          js_sort_def ordinalCompare_def jane_def john_def Let_def)
  then show ?thesis
    using search_blank_query [of ?r ordinalCompare "[jane, john]" no_fuse,
        OF blank ordinalCompare_total ordinalCompare_trans off lim]
    by simp blast
qed

text \<open>
  Claim C2 as stated fails twice. With the surnames \<^verbatim>\<open>B\<close> and \<^verbatim>\<open>a\<close> and a
  comparator that orders as a dictionary does, the result is \<^verbatim>\<open>a\<close>, \<^verbatim>\<open>B\<close>, which is
  not ascending by character code (\<^verbatim>\<open>B\<close> is 66, \<^verbatim>\<open>a\<close> is 97). And with a page size
  of 0 the result is not truncated to no contacts: both are returned.
\<close>

theorem search_blank_query_counterexample:
  "searchContacts collate no_fuse [surnamed ''B'', surnamed ''a'']
      \<lparr> query = [], filters = None, limit = None, offset = None \<rparr>
     = [surnamed ''a'', surnamed ''B'']
   \<and> \<not> sorted (map (\<lambda>c. last_name (name c)) [surnamed ''a'', surnamed ''B''])
   \<and> length (searchContacts ordinalCompare no_fuse [surnamed ''B'', surnamed ''a'']
               \<lparr> query = [], filters = None, limit = Some 0, offset = None \<rparr>) = 2"
  by (simp add: searchContacts_def trim_def orDefault_def js_slice_def js_sort_def collate_def
        ordinalCompare_def letter_key_def surnamed_def john_def Let_def)

subsection \<open>A limit of zero\<close>

lemma nat_min_50: "nat (min 50 (int n)) = min 50 n"
  by linarith

text \<open>
  Claim C10. For every comparator, matcher, contact list and request, a request
  with the limit 0 gets the same result as the request without a limit and as the
  request with the limit 50, since \<^verbatim>\<open>request.limit || 50\<close> is 50 for the limit 0. So a
  limit of 0 does not give an empty page: for an empty query without filters and
  offset the result has \<open>min 50 (length cs)\<close> contacts.
\<close>

theorem limit_zero_is_default:
  "searchContacts localeCompare fuse cs (r\<lparr> limit := Some 0 \<rparr>)
     = searchContacts localeCompare fuse cs (r\<lparr> limit := None \<rparr>)
   \<and> searchContacts localeCompare fuse cs (r\<lparr> limit := Some 0 \<rparr>)
     = searchContacts localeCompare fuse cs (r\<lparr> limit := Some 50 \<rparr>)
   \<and> (trim (query r) = [] \<and> filters r = None \<and> offset r = None
        \<longrightarrow> length (searchContacts localeCompare fuse cs (r\<lparr> limit := Some 0 \<rparr>)) = min 50 (length cs))"
  by (simp add: searchContacts_def orDefault_def Let_def js_slice_def length_js_sort nat_min_50)

theorem limit_zero_is_default_witness:
  "searchContacts ordinalCompare no_fuse [jane, john]
      \<lparr> query = [], filters = None, limit = Some 0, offset = None \<rparr> = [john, jane]
   \<and> searchContacts ordinalCompare no_fuse [jane, john]
      \<lparr> query = [], filters = None, limit = None, offset = None \<rparr> = [john, jane]
   \<and> length (searchContacts ordinalCompare no_fuse [jane, john]
      \<lparr> query = [], filters = None, limit = Some 0, offset = None \<rparr>) = min 50 (length [jane, john])"
  using limit_zero_is_default [of ordinalCompare no_fuse "[jane, john]"
      "\<lparr> query = [], filters = None, limit = Some 7, offset = None \<rparr>"]
  by (simp add: searchContacts_def trim_def orDefault_def js_slice_def js_sort_def
        ordinalCompare_def jane_def john_def Let_def)

section \<open>Properties of the search stores\<close>

lemma timer_fires_keeps:
  "s_query (searchState (timer_fires lc fuse w)) = s_query (searchState w)
   \<and> s_filters (searchState (timer_fires lc fuse w)) = s_filters (searchState w)"
  by (simp add: timer_fires_def split: list.splits)

lemma timers_fire_keep:
  "s_query (searchState ((timer_fires lc fuse ^^ n) w)) = s_query (searchState w)
   \<and> s_filters (searchState ((timer_fires lc fuse ^^ n) w)) = s_filters (searchState w)"
  by (induction n) (simp_all add: timer_fires_keeps)

lemma timers_timer_fires: "timers (timer_fires lc fuse w) = tl (timers w)"
  by (simp add: timer_fires_def split: list.splits)

lemma timers_after_fires: "timers ((timer_fires lc fuse ^^ n) w) = drop n (timers w)"
  by (induction n) (simp_all add: timers_timer_fires drop_Suc tl_drop)

lemma no_timer_pending: "timers w = [] \<Longrightarrow> all_timers_fire lc fuse w = w"
  by (simp add: all_timers_fire_def)

lemma last_timer_decides:
  "timers w = ts @ [p] \<Longrightarrow>
   all_timers_fire lc fuse w
     = w\<lparr> timers := [],
          searchState := (searchState w)
            \<lparr> results := searchContacts lc fuse (p_contacts p) (request_of (p_query p) (p_filters p)),
              isSearching := False \<rparr> \<rparr>"
proof (induction ts arbitrary: w)
  case Nil
  then show ?case by (simp add: all_timers_fire_def timer_fires_def)
next
  case (Cons t ts)
  let ?w' = "timer_fires lc fuse w"
  have t': "timers ?w' = ts @ [p]"
    using Cons.prems by (simp add: timer_fires_def)
  have "all_timers_fire lc fuse w = all_timers_fire lc fuse ?w'"
    using Cons.prems t' by (simp add: all_timers_fire_def funpow_swap1)
  also have "\<dots> = ?w'\<lparr> timers := [],
          searchState := (searchState ?w')
            \<lparr> results := searchContacts lc fuse (p_contacts p) (request_of (p_query p) (p_filters p)),
              isSearching := False \<rparr> \<rparr>"
    using Cons.IH [OF t'] .
  also have "\<dots> = w\<lparr> timers := [],
          searchState := (searchState w)
            \<lparr> results := searchContacts lc fuse (p_contacts p) (request_of (p_query p) (p_filters p)),
              isSearching := False \<rparr> \<rparr>"
    using Cons.prems by (simp add: timer_fires_def)
  finally show ?case .
qed

text \<open>
  Claim C9, as amended. Neither store tags a search or checks anything when a timer
  runs: the callback writes the results of the query it has captured. What holds,
  for \<^verbatim>\<open>setQuery(q1)\<close> and then \<^verbatim>\<open>setQuery(q2)\<close> with any number \<open>n\<close> of timer events
  between the two calls and all pending timers run afterwards, in the order they
  were set, is this.
  \<^item> zustand, where \<^verbatim>\<open>searchContacts\<close> is called after each \<^verbatim>\<open>setQuery\<close>: the results
    are those of the search for \<open>q2\<close> and the query is \<open>q2\<close>, for every \<open>q2\<close>.
  \<^item> valtio, where \<^verbatim>\<open>setQuery\<close> starts the search itself: if the trimmed \<open>q2\<close> is not
    empty, the results are those of the search for \<open>q2\<close> and the query is \<open>q2\<close>.
  \<^item> valtio, if the trimmed \<open>q2\<close> is empty: the call clears the results. If the
    trimmed \<open>q1\<close> is not empty and its timer is still pending at the second call
    (\<open>n\<close> is at most the number of timers that were pending before the first), the
    timer then writes the results of the search for \<open>q1\<close> over them, with \<open>q2\<close> as the
    query. If no timer is pending at the second call, the results stay empty.
\<close>

theorem later_query_decides_results:
  "searchState (all_timers_fire lc fuse
       (store_searchContacts cs2 (store_setQuery q2
          ((timer_fires lc fuse ^^ n) (store_searchContacts cs1 (store_setQuery q1 w))))))
     = \<lparr> s_query = q2, s_filters = s_filters (searchState w),
         results = searchContacts lc fuse cs2 (request_of q2 (s_filters (searchState w))),
         isSearching = False \<rparr>
   \<and> (trim q2 \<noteq> [] \<longrightarrow>
        searchState (all_timers_fire lc fuse
           (setQuery cs2 q2 ((timer_fires lc fuse ^^ n) (setQuery cs1 q1 w))))
         = \<lparr> s_query = q2, s_filters = s_filters (searchState w),
             results = searchContacts lc fuse cs2 (request_of q2 (s_filters (searchState w))),
             isSearching = False \<rparr>)
   \<and> (trim q2 = [] \<longrightarrow>
        results (searchState (setQuery cs2 q2 ((timer_fires lc fuse ^^ n) (setQuery cs1 q1 w)))) = [])
   \<and> (trim q2 = [] \<and> trim q1 \<noteq> [] \<and> n \<le> length (timers w) \<longrightarrow>
        searchState (all_timers_fire lc fuse
           (setQuery cs2 q2 ((timer_fires lc fuse ^^ n) (setQuery cs1 q1 w))))
         = \<lparr> s_query = q2, s_filters = s_filters (searchState w),
             results = searchContacts lc fuse cs1 (request_of q1 (s_filters (searchState w))),
             isSearching = False \<rparr>)
   \<and> (trim q2 = [] \<and> length (timers (setQuery cs1 q1 w)) \<le> n \<longrightarrow>
        results (searchState (all_timers_fire lc fuse
           (setQuery cs2 q2 ((timer_fires lc fuse ^^ n) (setQuery cs1 q1 w))))) = [])"
proof -
  let ?v = "(timer_fires lc fuse ^^ n) (setQuery cs1 q1 w)"
  let ?z = "(timer_fires lc fuse ^^ n) (store_searchContacts cs1 (store_setQuery q1 w))"
  let ?want = "\<lambda>cs q. \<lparr> s_query = q2, s_filters = s_filters (searchState w),
             results = searchContacts lc fuse cs (request_of q (s_filters (searchState w))),
             isSearching = False \<rparr>"
  have fv: "s_filters (searchState ?v) = s_filters (searchState w)"
    using timers_fire_keep [where lc = lc and fuse = fuse and n = n and w = "setQuery cs1 q1 w"]
    by (simp add: setQuery_def performSearch_def Let_def)
  have fz: "s_filters (searchState ?z) = s_filters (searchState w)"
    using timers_fire_keep [where lc = lc and fuse = fuse and n = n and w = "store_searchContacts cs1 (store_setQuery q1 w)"]
    by (simp add: store_setQuery_def store_searchContacts_def Let_def)
  have zustand: "searchState (all_timers_fire lc fuse (store_searchContacts cs2 (store_setQuery q2 ?z)))
         = ?want cs2 q2"
  proof -
    have tz: "timers (store_searchContacts cs2 (store_setQuery q2 ?z))
            = timers ?z @ [\<lparr> p_query = q2, p_filters = s_filters (searchState w), p_contacts = cs2 \<rparr>]"
      using fz by (simp add: store_setQuery_def store_searchContacts_def Let_def)
    show ?thesis
      using last_timer_decides [OF tz, where lc = lc and fuse = fuse] fz
      by (simp add: store_setQuery_def store_searchContacts_def Let_def)
  qed
  have nonblank: "searchState (all_timers_fire lc fuse (setQuery cs2 q2 ?v)) = ?want cs2 q2"
    if "trim q2 \<noteq> []"
  proof -
    have tv: "timers (setQuery cs2 q2 ?v)
            = timers ?v @ [\<lparr> p_query = q2, p_filters = s_filters (searchState w), p_contacts = cs2 \<rparr>]"
      using that fv by (simp add: setQuery_def performSearch_def Let_def)
    show ?thesis
      using last_timer_decides [OF tv, where lc = lc and fuse = fuse] that fv
      by (simp add: setQuery_def performSearch_def Let_def)
  qed
  have cleared: "results (searchState (setQuery cs2 q2 ?v)) = []" if "trim q2 = []"
    using that by (simp add: setQuery_def performSearch_def Let_def)
  have kept: "timers (setQuery cs2 q2 ?v) = drop n (timers (setQuery cs1 q1 w))" if "trim q2 = []"
    using that by (simp add: setQuery_def performSearch_def Let_def timers_after_fires)
  have blank_state: "searchState (setQuery cs2 q2 ?v)
      = \<lparr> s_query = q2, s_filters = s_filters (searchState w), results = [], isSearching = False \<rparr>"
    if "trim q2 = []"
    using that fv by (simp add: setQuery_def performSearch_def Let_def)
  have stale: "searchState (all_timers_fire lc fuse (setQuery cs2 q2 ?v)) = ?want cs1 q1"
    if "trim q2 = []" "trim q1 \<noteq> []" "n \<le> length (timers w)"
  proof -
    have "timers (setQuery cs1 q1 w)
          = timers w @ [\<lparr> p_query = q1, p_filters = s_filters (searchState w), p_contacts = cs1 \<rparr>]"
      using that(2) by (simp add: setQuery_def performSearch_def Let_def)
    then have tv: "timers (setQuery cs2 q2 ?v)
          = drop n (timers w) @ [\<lparr> p_query = q1, p_filters = s_filters (searchState w), p_contacts = cs1 \<rparr>]"
      using kept [OF that(1)] that(3) by simp
    show ?thesis
      using last_timer_decides [OF tv, where lc = lc and fuse = fuse] blank_state [OF that(1)]
      by simp
  qed
  have stays: "results (searchState (all_timers_fire lc fuse (setQuery cs2 q2 ?v))) = []"
    if "trim q2 = []" "length (timers (setQuery cs1 q1 w)) \<le> n"
  proof -
    have "timers (setQuery cs2 q2 ?v) = []"
      using kept [OF that(1)] that(2) by simp
    then show ?thesis
      using no_timer_pending [of "setQuery cs2 q2 ?v" lc fuse] cleared [OF that(1)] by simp
  qed
  show ?thesis
    using zustand nonblank cleared stale stays by blast
qed

theorem later_query_decides_results_witness:
  "trim query_jo \<noteq> []
   \<and> results (searchState (all_timers_fire collate prefix_fuse
        (setQuery [john] query_jo ((timer_fires collate prefix_fuse ^^ 0)
           (setQuery [john] [0x6A, 0x61] idle_world))))) = [john]
   \<and> trim [] = []
   \<and> results (searchState (all_timers_fire collate prefix_fuse
        (setQuery [john] [] ((timer_fires collate prefix_fuse ^^ 0)
           (setQuery [john] query_jo idle_world))))) = [john]"
proof -
  have h: "trim query_jo \<noteq> []"
    by (simp add: trim_def isWhiteSpace_def query_jo_def)
  have b: "trim [] = []"
    by (simp add: trim_def)
  have n: "(0::nat) \<le> length (timers idle_world)"
    by simp
  have s: "searchContacts collate prefix_fuse [john] (request_of query_jo (s_filters (searchState idle_world)))
        = [john]"
    by (simp add: searchContacts_def request_of_def idle_world_def trim_def isWhiteSpace_def
          query_jo_def prefix_fuse_def code_units_def fold_unit_def orDefault_def js_slice_def
          john_def Let_def)
  note t1 = later_query_decides_results [where lc = collate and fuse = prefix_fuse
        and ?cs2.0 = "[john]" and n = 0 and ?cs1.0 = "[john]" and ?q1.0 = "[0x6A, 0x61]"
        and ?q2.0 = query_jo and w = idle_world]
  note t2 = later_query_decides_results [where lc = collate and fuse = prefix_fuse
        and ?cs2.0 = "[john]" and n = 0 and ?cs1.0 = "[john]" and ?q1.0 = query_jo
        and ?q2.0 = "[]" and w = idle_world]
  have r1: "results (searchState (all_timers_fire collate prefix_fuse
        (setQuery [john] query_jo ((timer_fires collate prefix_fuse ^^ 0)
           (setQuery [john] [0x6A, 0x61] idle_world))))) = [john]"
    using t1 h s by simp
  have r2: "results (searchState (all_timers_fire collate prefix_fuse
        (setQuery [john] [] ((timer_fires collate prefix_fuse ^^ 0)
           (setQuery [john] query_jo idle_world))))) = [john]"
    using t2 h b n s by simp
  show ?thesis using h b r1 r2 by simp
qed

text \<open>
  Claim C9 as stated fails in the valtio store when the later query is empty:
  \<^verbatim>\<open>setQuery('jo')\<close> sets a timer, \<^verbatim>\<open>setQuery('')\<close> clears the results at once and sets
  none, and the timer of the first call then writes the results for \<^verbatim>\<open>jo\<close> over them
  while the query is empty.
\<close>

theorem stale_search_overwrites_counterexample:
  "results (searchState (setQuery [john] [] (setQuery [john] query_jo idle_world))) = []
   \<and> timers (setQuery [john] [] (setQuery [john] query_jo idle_world))
       = [\<lparr> p_query = query_jo, p_filters = s_filters (searchState idle_world), p_contacts = [john] \<rparr>]
   \<and> s_query (searchState (timer_fires collate prefix_fuse
        (setQuery [john] [] (setQuery [john] query_jo idle_world)))) = []
   \<and> results (searchState (timer_fires collate prefix_fuse
        (setQuery [john] [] (setQuery [john] query_jo idle_world)))) = [john]"
  by (simp add: setQuery_def performSearch_def timer_fires_def searchContacts_def request_of_def
        idle_world_def trim_def isWhiteSpace_def query_jo_def prefix_fuse_def code_units_def
        fold_unit_def orDefault_def js_slice_def john_def Let_def)

end
